theory Spec2Isabelle
  imports Main "HOL-Library.Word" "HOL-Library.Char_ord" "HOL-Library.List_Lexorder"
begin

section \<open>The Wi-Fi Direct network manager of aethercast\<close>

text \<open>
  A shallow embedding of \<^verbatim>\<open>src/wpa/wpasupplicantnetworkmanager.cpp\<close>. The member
  functions of \<^verbatim>\<open>WpaSupplicantNetworkManager\<close> become functions on a record of the
  object's fields. Peers are \<^verbatim>\<open>std::shared_ptr<NetworkDevice>\<close> values that the peer
  table and \<^verbatim>\<open>current_peer_\<close> share, so the devices live in an explicit store and the
  fields hold pointers into it. Dereferencing a null pointer is the error value
  \<open>NullPointerDereference\<close>. Calls to the collaborators (the delegate, the DHCP client and
  server, the firmware loader, the control socket) are appended to a trace, in
  the order the code makes them.
\<close>

subsection \<open>Peers\<close>

datatype NetworkDeviceState =
  kIdle | kFailure | kAssociation | kConfiguration | kConnected | kDisconnected

record NetworkDevice =
  Address :: string
  Name :: string
  State :: NetworkDeviceState

text \<open>
  Modelled from the spec: the class \<^verbatim>\<open>mcs::NetworkDevice\<close> (networkdevice.h) is not among
  the sources. A freshly constructed peer has empty address and name and the initial
  state idle; the setters assign the field they name.
\<close>

definition new_NetworkDevice :: NetworkDevice where
  "new_NetworkDevice = \<lparr>Address = [], Name = [], State = kIdle\<rparr>"

definition SetAddress :: "string \<Rightarrow> NetworkDevice \<Rightarrow> NetworkDevice" where
  "SetAddress a d = d\<lparr>Address := a\<rparr>"

definition SetName :: "string \<Rightarrow> NetworkDevice \<Rightarrow> NetworkDevice" where
  "SetName n d = d\<lparr>Name := n\<rparr>"

definition SetState :: "NetworkDeviceState \<Rightarrow> NetworkDevice \<Rightarrow> NetworkDevice" where
  "SetState st d = d\<lparr>State := st\<rparr>"

text \<open>A \<^verbatim>\<open>NetworkDevice::Ptr\<close>: \<open>None\<close> is the null pointer, \<open>Some p\<close> points at cell \<open>p\<close>
  of the store.\<close>

type_synonym ptr = "nat option"

datatype error = NullPointerDereference

subsection \<open>Requests, main-loop sources and calls to collaborators\<close>

datatype arg = StrArg string | IntArg int | UIntArg nat

text \<open>A request built by \<^verbatim>\<open>WpaSupplicantMessage::CreateRequest(name) << a1 << a2\<close>.\<close>

datatype request = Request string "arg list"

text \<open>
  The reply handlers passed to \<^verbatim>\<open>RequestAsync\<close>. The handlers of \<^verbatim>\<open>Connect\<close> and
  \<^verbatim>\<open>DisconnectAll\<close> assign the local \<^verbatim>\<open>ret\<close> of their caller; the others do nothing
  but log.
\<close>

datatype reply_handler = AttachReply | IgnoreReply | ConnectReply | DisconnectAllReply

text \<open>What a handler makes of \<^verbatim>\<open>ret\<close> when it runs on a reply: \<open>is_fail\<close> is
  \<^verbatim>\<open>message.IsFail()\<close>.\<close>

fun run_reply_handler :: "reply_handler \<Rightarrow> bool \<Rightarrow> bool \<Rightarrow> bool" where
  "run_reply_handler ConnectReply is_fail ret = (if is_fail then ret else True)"
| "run_reply_handler DisconnectAllReply is_fail ret = (if is_fail then ret else True)"
| "run_reply_handler AttachReply is_fail ret = ret"
| "run_reply_handler IgnoreReply is_fail ret = ret"

datatype GSourceFunc =
  OnConnectSupplicantFunc | OnSupplicantRespawnFunc | OnGroupClientDhcpTimeoutFunc
  | OnDeviceFailureTimeoutFunc

datatype GSource = Timeout nat GSourceFunc | IOWatch | ChildWatch

datatype call =
  OnDeviceFound ptr
  | OnDeviceLost ptr
  | OnDeviceStateChanged ptr NetworkDeviceState
  | DhcpClientStart | DhcpClientStop | DhcpServerStart | DhcpServerStop
  | FirmwareTryLoad
  | WriteMessage request
  | ReplyHandlerRun reply_handler bool

subsection \<open>The manager\<close>

record WpaSupplicantNetworkManager =
  delegate :: bool
  store :: "nat \<Rightarrow> NetworkDevice"
  store_next :: nat
  available_devices :: "(string \<times> ptr) list"
  current_peer :: ptr
  command_queue :: "(request \<times> reply_handler) list"
  supplicant_pid :: int
  sock :: int
  channel :: bool
  channel_watch :: nat
  dhcp_timeout :: nat
  respawn_limit :: "32 word"
  respawn_source :: nat
  is_group_owner :: bool
  sources :: "(nat \<times> GSource) list"
  source_count :: nat
  calls :: "call list"

text \<open>
  \<open>delegate\<close> says whether \<^verbatim>\<open>delegate_\<close> is non-null, \<open>channel\<close> whether \<^verbatim>\<open>channel_\<close>
  is. \<open>store\<close> and \<open>store_next\<close> are the devices allocated so far and the next free cell.
  \<open>available_devices\<close> lists the entries of the container in its iteration order.
  \<open>sources\<close> are the sources attached to the GLib main loop, with their ids, and
  \<open>source_count\<close> the number of ids handed out. \<open>calls\<close> is the trace.
  \<^verbatim>\<open>respawn_limit_\<close> is initialised from a \<^verbatim>\<open>const uint\<close>: a 32-bit word.
\<close>

definition kDhcpIpAssignmentTimeout :: nat where "kDhcpIpAssignmentTimeout = 5000"
definition kPeerFailureTimeout :: nat where "kPeerFailureTimeout = 5000"
definition kSupplicantRespawnLimit :: "32 word" where "kSupplicantRespawnLimit = 10"
definition kSupplicantRespawnTimeout :: nat where "kSupplicantRespawnTimeout = 2000"

text \<open>The constructor. It leaves \<^verbatim>\<open>sock_\<close> and \<^verbatim>\<open>supplicant_pid_\<close> uninitialised: the
  values they happen to hold are parameters.\<close>

definition constructor :: "bool \<Rightarrow> int \<Rightarrow> int \<Rightarrow> WpaSupplicantNetworkManager" where
  "constructor d sock0 pid0 =
     \<lparr>delegate = d, store = (\<lambda>_. new_NetworkDevice), store_next = 0,
      available_devices = [], current_peer = None, command_queue = [],
      supplicant_pid = pid0, sock = sock0, channel = False, channel_watch = 0,
      dhcp_timeout = 0, respawn_limit = kSupplicantRespawnLimit, respawn_source = 0,
      is_group_owner = False, sources = [], source_count = 0, calls = []\<rparr>"

subsubsection \<open>Helpers: trace, store, main loop, command queue, container\<close>

definition emit :: "call \<Rightarrow> WpaSupplicantNetworkManager \<Rightarrow> WpaSupplicantNetworkManager" where
  "emit c s = s\<lparr>calls := calls s @ [c]\<rparr>"

text \<open>\<^verbatim>\<open>if (delegate_) delegate_->...\<close>\<close>

definition notify :: "call \<Rightarrow> WpaSupplicantNetworkManager \<Rightarrow> WpaSupplicantNetworkManager" where
  "notify c s = (if delegate s then emit c s else s)"

text \<open>\<^verbatim>\<open>if (delegate_) delegate_->OnDeviceStateChanged(p)\<close> for a non-null \<open>p\<close>: the trace
  records the state the delegate finds in the peer when it is called.\<close>

definition notify_state_changed ::
  "nat \<Rightarrow> WpaSupplicantNetworkManager \<Rightarrow> WpaSupplicantNetworkManager" where
  "notify_state_changed p s = notify (OnDeviceStateChanged (Some p) (State (store s p))) s"

text \<open>\<^verbatim>\<open>p->SetState(st)\<close> for a non-null \<open>p\<close>.\<close>

definition set_state ::
  "nat \<Rightarrow> NetworkDeviceState \<Rightarrow> WpaSupplicantNetworkManager \<Rightarrow> WpaSupplicantNetworkManager" where
  "set_state p st s = s\<lparr>store := (store s)(p := SetState st (store s p))\<rparr>"

text \<open>
  The GLib main loop (a library, not part of the repository): attaching a source hands
  out the next id, which is never 0; \<^verbatim>\<open>g_source_remove\<close> detaches the source with the
  given id.
\<close>

definition g_source_attach ::
  "GSource \<Rightarrow> WpaSupplicantNetworkManager \<Rightarrow> nat \<times> WpaSupplicantNetworkManager" where
  "g_source_attach src s =
     (let tag = Suc (source_count s)
      in (tag, s\<lparr>sources := sources s @ [(tag, src)], source_count := tag\<rparr>))"

definition g_timeout_add ::
  "nat \<Rightarrow> GSourceFunc \<Rightarrow> WpaSupplicantNetworkManager \<Rightarrow> nat \<times> WpaSupplicantNetworkManager" where
  "g_timeout_add interval f s = g_source_attach (Timeout interval f) s"

definition g_source_remove :: "nat \<Rightarrow> WpaSupplicantNetworkManager \<Rightarrow> WpaSupplicantNetworkManager" where
  "g_source_remove tag s = s\<lparr>sources := filter (\<lambda>e. fst e \<noteq> tag) (sources s)\<rparr>"

text \<open>
  Modelled from the spec: the command queue \<^verbatim>\<open>WpaSupplicantCommandQueue\<close> is not among
  the sources. \<^verbatim>\<open>EnqueueCommand\<close> appends the entry with its reply handler; if nothing is
  in flight the request is written at once. The handler is stored, not run. The third
  argument is the boolean variable of the caller that the handler captures by reference
  (a handler that captures none is given \<open>False\<close>, and the result is dropped): the
  function returns the value the variable holds when \<^verbatim>\<open>EnqueueCommand\<close> returns, which
  is the value it had, since no handler has assigned it.
\<close>

definition EnqueueCommand ::
  "request \<Rightarrow> reply_handler \<Rightarrow> bool \<Rightarrow> WpaSupplicantNetworkManager
     \<Rightarrow> bool \<times> WpaSupplicantNetworkManager" where
  "EnqueueCommand m h captured s =
     (let s1 = s\<lparr>command_queue := command_queue s @ [(m, h)]\<rparr>
      in (captured, if command_queue s = [] then emit (WriteMessage m) s1 else s1))"

definition RequestAsync ::
  "request \<Rightarrow> reply_handler \<Rightarrow> bool \<Rightarrow> WpaSupplicantNetworkManager
     \<Rightarrow> bool \<times> WpaSupplicantNetworkManager" where
  "RequestAsync m h captured s = EnqueueCommand m h captured s"

text \<open>
  Modelled from the spec: \<^verbatim>\<open>WpaSupplicantCommandQueue::HandleMessage\<close> for a message that
  is a reply. It is the reply to the request in flight, the head of the queue: the
  handler of that entry is invoked on it, the entry is popped, and the next request,
  if there is one, is written. \<open>is_fail\<close> is \<^verbatim>\<open>message.IsFail()\<close>. The handlers of this
  file change no field of the manager; the trace records that the handler ran, and on
  what. A reply with nothing in flight is dropped.
\<close>

definition HandleReply :: "bool \<Rightarrow> WpaSupplicantNetworkManager \<Rightarrow> WpaSupplicantNetworkManager" where
  "HandleReply is_fail s =
     (case command_queue s of
        [] \<Rightarrow> s
      | (m, h) # rest \<Rightarrow>
          (let s1 = emit (ReplyHandlerRun h is_fail) s;
               s2 = s1\<lparr>command_queue := rest\<rparr>
           in case rest of
                [] \<Rightarrow> s2
              | (m', h') # rest' \<Rightarrow> emit (WriteMessage m') s2))"

text \<open>The runs of reply handlers that a trace records.\<close>

fun handler_runs :: "call list \<Rightarrow> (reply_handler \<times> bool) list" where
  "handler_runs [] = []"
| "handler_runs (ReplyHandlerRun h is_fail # cs) = (h, is_fail) # handler_runs cs"
| "handler_runs (c # cs) = handler_runs cs"

text \<open>
  The container \<^verbatim>\<open>available_devices_\<close>. Its declaration is in the header, which is not
  among the sources; the code uses it as a standard associative container of
  \<^verbatim>\<open>std::string\<close> to \<^verbatim>\<open>NetworkDevice::Ptr\<close>. \<open>table_find\<close> is \<^verbatim>\<open>find(k) != end()\<close>.
  \<open>table_index\<close> is \<^verbatim>\<open>operator[]\<close>: it returns the value stored at the key, and for a
  key that is absent it first inserts the key with a null pointer. A new key is
  placed by key order, as \<^verbatim>\<open>std::map\<close> iterates.
\<close>

definition table_find :: "string \<Rightarrow> (string \<times> ptr) list \<Rightarrow> bool" where
  "table_find k t = (map_of t k \<noteq> None)"

definition table_index :: "string \<Rightarrow> (string \<times> ptr) list \<Rightarrow> ptr \<times> (string \<times> ptr) list" where
  "table_index k t =
     (case map_of t k of
        Some v \<Rightarrow> (v, t)
      | None \<Rightarrow> (None, insort_key fst (k, None) t))"

text \<open>\<^verbatim>\<open>available_devices_[k] = v\<close>: \<^verbatim>\<open>operator[]\<close>, then the assignment to the slot.\<close>

definition table_assign :: "string \<Rightarrow> ptr \<Rightarrow> (string \<times> ptr) list \<Rightarrow> (string \<times> ptr) list" where
  "table_assign k v t =
     map (\<lambda>e. if fst e = k then (k, v) else e) (snd (table_index k t))"

subsection \<open>The member functions\<close>

text \<open>
  The message codec is not among the sources. The handlers of the unsolicited events take
  the fields they read from the message (\<^verbatim>\<open>message.Read(...)\<close>) as arguments: the
  address and the name of \<^verbatim>\<open>P2P-DEVICE-FOUND\<close>, the address of \<^verbatim>\<open>P2P-DEVICE-LOST\<close>, the
  role token of \<^verbatim>\<open>P2P-GROUP-STARTED\<close>, the reason of \<^verbatim>\<open>P2P-GROUP-REMOVED\<close>. The results
  of system calls and of the firmware loader are arguments too.
\<close>

text \<open>
  The loop of \<^verbatim>\<open>OnP2pDeviceFound\<close> over the container: the first entry whose peer has
  the address is returned, \<open>None\<close> when the loop runs to its end. The loop calls
  \<^verbatim>\<open>peer->Address()\<close> on every entry it visits, a null entry included.
\<close>

fun find_device ::
  "(nat \<Rightarrow> NetworkDevice) \<Rightarrow> string \<Rightarrow> (string \<times> ptr) list \<Rightarrow> error + ptr" where
  "find_device h a [] = Inr None"
| "find_device h a ((k, None) # rest) = Inl NullPointerDereference"
| "find_device h a ((k, Some p) # rest) =
     (if Address (h p) \<noteq> a then find_device h a rest else Inr (Some p))"

definition OnP2pDeviceFound ::
  "string \<Rightarrow> string \<Rightarrow> WpaSupplicantNetworkManager \<Rightarrow> error + WpaSupplicantNetworkManager" where
  "OnP2pDeviceFound address name s =
     (case find_device (store s) address (available_devices s) of
        Inl e \<Rightarrow> Inl e
      | Inr (Some p) \<Rightarrow>
          Inr (s\<lparr>store := (store s)(p := SetName name (SetAddress address (store s p)))\<rparr>)
      | Inr None \<Rightarrow>
          (let p = store_next s;
               s1 = s\<lparr>store := (store s)(p := SetName name (SetAddress address new_NetworkDevice)),
                      store_next := Suc p\<rparr>;
               s2 = s1\<lparr>available_devices := table_assign address (Some p) (available_devices s1)\<rparr>
           in Inr (notify (OnDeviceFound (Some p)) s2)))"

definition OnP2pDeviceLost ::
  "string \<Rightarrow> WpaSupplicantNetworkManager \<Rightarrow> WpaSupplicantNetworkManager" where
  "OnP2pDeviceLost address s =
     (let (peer, t) = table_index address (available_devices s);
          s1 = s\<lparr>available_devices := t\<rparr>
      in if peer = None then s1 else notify (OnDeviceLost peer) s1)"

definition OnP2pGroupStarted ::
  "string \<Rightarrow> WpaSupplicantNetworkManager \<Rightarrow> WpaSupplicantNetworkManager" where
  "OnP2pGroupStarted role s =
     (case current_peer s of
        None \<Rightarrow> s
      | Some p \<Rightarrow>
          (let s1 = set_state p kConfiguration s;
               s2 = notify_state_changed p s1
           in if role = ''GO'' then
                (let s3 = s2\<lparr>is_group_owner := True\<rparr>;
                     s4 = set_state p kConnected s3;
                     s5 = emit DhcpServerStart s4
                 in notify_state_changed p s5)
              else
                (let s3 = s2\<lparr>is_group_owner := False\<rparr>;
                     s4 = emit DhcpClientStart s3;
                     (tag, s5) = g_timeout_add kDhcpIpAssignmentTimeout OnGroupClientDhcpTimeoutFunc s4
                 in s5\<lparr>dhcp_timeout := tag\<rparr>)))"

definition lut :: "(string \<times> NetworkDeviceState) list" where
  "lut = [(''FORMATION_FAILED'', kFailure), (''PSK_FAILURE'', kFailure),
          (''FREQ_CONFLICT'', kFailure)]"

text \<open>
  \<^verbatim>\<open>OnP2pGroupRemoved\<close> returns at once when \<^verbatim>\<open>current_peer_.get()\<close> is non-null. The rest
  of its body runs with a null \<^verbatim>\<open>current_peer_\<close>, which \<^verbatim>\<open>current_peer_->SetState\<close>
  dereferences.
\<close>

definition OnP2pGroupRemoved ::
  "string \<Rightarrow> WpaSupplicantNetworkManager \<Rightarrow> error + WpaSupplicantNetworkManager" where
  "OnP2pGroupRemoved reason s =
     (if current_peer s \<noteq> None then Inr s
      else
        (case current_peer s of
           None \<Rightarrow> Inl NullPointerDereference
         | Some p \<Rightarrow>
             (let st = (case map_of lut reason of Some v \<Rightarrow> v | None \<Rightarrow> kDisconnected);
                  s1 = set_state p st s;
                  s2 = notify_state_changed p s1
              in Inr (s2\<lparr>current_peer := None\<rparr>))))"

definition Running :: "WpaSupplicantNetworkManager \<Rightarrow> bool" where
  "Running s = (supplicant_pid s > 0)"

definition StopSupplicant :: "WpaSupplicantNetworkManager \<Rightarrow> WpaSupplicantNetworkManager" where
  "StopSupplicant s = (if supplicant_pid s < 0 then s else s\<lparr>supplicant_pid := 0\<rparr>)"

definition DisconnectSupplicant :: "WpaSupplicantNetworkManager \<Rightarrow> WpaSupplicantNetworkManager" where
  "DisconnectSupplicant s =
     (if sock s < 0 then s
      else
        (let s1 = (if channel s then s\<lparr>channel := False\<rparr> else s);
             s2 = (if channel_watch s1 > 0
                   then (g_source_remove (channel_watch s1) s1)\<lparr>channel_watch := 0\<rparr> else s1)
         in if sock s2 > 0 then s2\<lparr>sock := 0\<rparr> else s2))"

definition Reset :: "WpaSupplicantNetworkManager \<Rightarrow> WpaSupplicantNetworkManager" where
  "Reset s =
     (let s1 = (case current_peer s of
                  None \<Rightarrow> s
                | Some p \<Rightarrow>
                    (let a = set_state p kDisconnected s;
                         b = notify_state_changed p a;
                         c = b\<lparr>current_peer := None\<rparr>;
                         d = (if dhcp_timeout c > 0
                              then (g_source_remove (dhcp_timeout c) c)\<lparr>dhcp_timeout := 0\<rparr> else c)
                     in emit DhcpServerStop (emit DhcpClientStop d)));
          s2 = (if delegate s1
                then foldl (\<lambda>acc peer. emit (OnDeviceLost (snd peer)) acc) s1 (available_devices s1)
                else s1)
      in s2\<lparr>available_devices := [], is_group_owner := False\<rparr>)"

text \<open>
  \<^verbatim>\<open>StartSupplicant\<close>. \<open>config_written\<close> is the result of \<^verbatim>\<open>CreateSupplicantConfig\<close>;
  \<open>spawned\<close> is the pid \<^verbatim>\<open>g_spawn_async\<close> stores, \<open>None\<close> when the spawn fails and
  stores none. \<^verbatim>\<open>g_spawn_async\<close> returns a \<^verbatim>\<open>gboolean\<close> and \<^verbatim>\<open>g_child_watch_add\<close> an
  unsigned id, so neither \<^verbatim>\<open>err < 0\<close> test can hold.
\<close>

definition StartSupplicant ::
  "bool \<Rightarrow> int option \<Rightarrow> WpaSupplicantNetworkManager \<Rightarrow> bool \<times> WpaSupplicantNetworkManager" where
  "StartSupplicant config_written spawned s =
     (if \<not> config_written then (False, s)
      else
        (let s1 = (case spawned of None \<Rightarrow> s | Some pid \<Rightarrow> s\<lparr>supplicant_pid := pid\<rparr>);
             (w, s2) = g_source_attach ChildWatch s1;
             (t, s3) = g_timeout_add 500 OnConnectSupplicantFunc s2
         in (True, s3)))"

definition SetWfdSubElements ::
  "string list \<Rightarrow> WpaSupplicantNetworkManager \<Rightarrow> WpaSupplicantNetworkManager" where
  "SetWfdSubElements elements s =
     snd (foldl (\<lambda>(n, acc) element.
                   (n + 1, snd (RequestAsync (Request ''WFD_SUBELEM_SET'' [IntArg n, StrArg element])
                                 IgnoreReply False acc)))
                (0, s) elements)"

text \<open>
  \<^verbatim>\<open>ConnectSupplicant\<close>. \<open>fd\<close>, \<open>bind_rc\<close> and \<open>connect_rc\<close> are the results of
  \<^verbatim>\<open>::socket\<close>, \<^verbatim>\<open>::bind\<close> and \<^verbatim>\<open>::connect\<close>; \<open>watch_ok\<close> says whether
  \<^verbatim>\<open>g_io_add_watch\<close> returns an id other than 0.
\<close>

definition ConnectSupplicant ::
  "int \<Rightarrow> int \<Rightarrow> int \<Rightarrow> bool \<Rightarrow> WpaSupplicantNetworkManager
     \<Rightarrow> bool \<times> WpaSupplicantNetworkManager" where
  "ConnectSupplicant fd bind_rc connect_rc watch_ok s =
     (let s1 = s\<lparr>sock := fd\<rparr>
      in if sock s1 < 0 then (False, s1)
         else if bind_rc < 0 then (False, s1)
         else if connect_rc < 0 then (False, s1)
         else
           (let s2 = s1\<lparr>channel := True\<rparr>;
                (tag, s3) = (if watch_ok then g_source_attach IOWatch s2 else (0, s2));
                s4 = s3\<lparr>channel_watch := tag\<rparr>
            in if channel_watch s4 = 0 then (False, s4)
               else
                 (let s5 = snd (RequestAsync (Request ''ATTACH'' []) AttachReply False s4);
                      s6 = snd (RequestAsync (Request ''SET'' [StrArg ''wifi_display'', IntArg 1])
                                 IgnoreReply False s5);
                      s7 = SetWfdSubElements [''000600101C440032''] s6
                  in (True, s7\<lparr>respawn_limit := kSupplicantRespawnLimit\<rparr>))))"

definition OnConnectSupplicant ::
  "int \<Rightarrow> int \<Rightarrow> int \<Rightarrow> bool \<Rightarrow> WpaSupplicantNetworkManager
     \<Rightarrow> bool \<times> WpaSupplicantNetworkManager" where
  "OnConnectSupplicant fd bind_rc connect_rc watch_ok s =
     (let (ok, s1) = ConnectSupplicant fd bind_rc connect_rc watch_ok s in (\<not> ok, s1))"

definition OnSupplicantRespawn ::
  "bool \<Rightarrow> int option \<Rightarrow> WpaSupplicantNetworkManager \<Rightarrow> bool \<times> WpaSupplicantNetworkManager" where
  "OnSupplicantRespawn config_written spawned s =
     (let (started, s1) = StartSupplicant config_written spawned s
      in if \<not> started \<and> respawn_limit s1 > 0
         then (True, s1\<lparr>respawn_limit := respawn_limit s1 - 1\<rparr>)
         else (False, s1))"

definition HandleSupplicantFailed ::
  "WpaSupplicantNetworkManager \<Rightarrow> WpaSupplicantNetworkManager" where
  "HandleSupplicantFailed s =
     (let s1 = (if respawn_limit s > 0
                then
                  (let a = (if respawn_source s \<noteq> 0 then g_source_remove (respawn_source s) s else s);
                       (tag, b) = g_timeout_add kSupplicantRespawnTimeout OnSupplicantRespawnFunc a;
                       c = b\<lparr>respawn_source := tag\<rparr>
                   in c\<lparr>respawn_limit := respawn_limit c - 1\<rparr>)
                else s)
      in Reset (StopSupplicant (DisconnectSupplicant s1)))"

text \<open>\<open>exit_ok\<close> is the result of \<^verbatim>\<open>g_spawn_check_exit_status\<close>.\<close>

definition OnSupplicantWatch ::
  "bool \<Rightarrow> WpaSupplicantNetworkManager \<Rightarrow> WpaSupplicantNetworkManager" where
  "OnSupplicantWatch exit_ok s = (if \<not> exit_ok then HandleSupplicantFailed s else s)"

text \<open>\<open>needed\<close> is \<^verbatim>\<open>firmware_loader_.IsNeeded()\<close>, \<open>loaded\<close> the result of
  \<^verbatim>\<open>firmware_loader_.TryLoad()\<close>.\<close>

definition Setup ::
  "bool \<Rightarrow> bool \<Rightarrow> bool \<Rightarrow> int option \<Rightarrow> WpaSupplicantNetworkManager
     \<Rightarrow> bool \<times> WpaSupplicantNetworkManager" where
  "Setup needed loaded config_written spawned s =
     (if \<not> needed then StartSupplicant config_written spawned s
      else (loaded, emit FirmwareTryLoad s))"

definition OnFirmwareLoaded ::
  "bool \<Rightarrow> int option \<Rightarrow> WpaSupplicantNetworkManager \<Rightarrow> WpaSupplicantNetworkManager" where
  "OnFirmwareLoaded config_written spawned s = snd (StartSupplicant config_written spawned s)"

definition OnFirmwareUnloaded :: "WpaSupplicantNetworkManager \<Rightarrow> WpaSupplicantNetworkManager" where
  "OnFirmwareUnloaded s = emit FirmwareTryLoad (StopSupplicant s)"

definition OnAddressAssigned ::
  "string \<Rightarrow> WpaSupplicantNetworkManager \<Rightarrow> WpaSupplicantNetworkManager" where
  "OnAddressAssigned address s =
     (case current_peer s of
        None \<Rightarrow> s
      | Some p \<Rightarrow>
          (let s1 = (if dhcp_timeout s > 0
                     then (g_source_remove (dhcp_timeout s) s)\<lparr>dhcp_timeout := 0\<rparr> else s);
               s2 = set_state p kConnected s1
           in notify_state_changed p s2))"

text \<open>The two timeout callbacks return \<^verbatim>\<open>FALSE\<close>: the main loop detaches the source.
  \<^verbatim>\<open>OnDeviceFailureTimeout\<close> dereferences \<^verbatim>\<open>current_peer_\<close> without a test.\<close>

definition OnDeviceFailureTimeout ::
  "WpaSupplicantNetworkManager \<Rightarrow> error + bool \<times> WpaSupplicantNetworkManager" where
  "OnDeviceFailureTimeout s =
     (case current_peer s of
        None \<Rightarrow> Inl NullPointerDereference
      | Some p \<Rightarrow> Inr (False, set_state p kIdle s))"

definition OnGroupClientDhcpTimeout ::
  "WpaSupplicantNetworkManager \<Rightarrow> bool \<times> WpaSupplicantNetworkManager" where
  "OnGroupClientDhcpTimeout s =
     (case current_peer s of
        None \<Rightarrow> (False, s)
      | Some p \<Rightarrow>
          (let s1 = set_state p kFailure s;
               (tag, s2) = g_timeout_add kPeerFailureTimeout OnDeviceFailureTimeoutFunc s1
           in (False, notify_state_changed p s2)))"

definition Scan :: "nat \<Rightarrow> WpaSupplicantNetworkManager \<Rightarrow> WpaSupplicantNetworkManager" where
  "Scan timeout s = snd (RequestAsync (Request ''P2P_FIND'' [UIntArg timeout]) IgnoreReply False s)"

definition Devices :: "WpaSupplicantNetworkManager \<Rightarrow> ptr list" where
  "Devices s = map snd (available_devices s)"

text \<open>
  \<^verbatim>\<open>Connect\<close> and \<^verbatim>\<open>DisconnectAll\<close> initialise the local \<^verbatim>\<open>ret\<close> with false, pass a
  reply handler that captures it by reference to \<^verbatim>\<open>RequestAsync\<close>, and return what
  \<^verbatim>\<open>ret\<close> holds after that call. \<^verbatim>\<open>Connect\<close> reads the address through the pointer it
  is given.
\<close>

definition Connect ::
  "ptr \<Rightarrow> WpaSupplicantNetworkManager \<Rightarrow> error + bool \<times> WpaSupplicantNetworkManager" where
  "Connect device s =
     (case device of
        None \<Rightarrow> Inl NullPointerDereference
      | Some d \<Rightarrow>
          (let a = Address (store s d)
           in if \<not> table_find a (available_devices s) then Inr (False, s)
              else if current_peer s \<noteq> None then Inr (False, s)
              else
                (let (peer, t) = table_index a (available_devices s);
                     s1 = s\<lparr>available_devices := t, current_peer := peer\<rparr>;
                     m = Request ''P2P_CONNECT'' [StrArg a, StrArg ''pbc''];
                     ret = False;
                     (ret, s2) = RequestAsync m ConnectReply ret s1
                 in Inr (ret, s2))))"

definition DisconnectAll ::
  "string \<Rightarrow> WpaSupplicantNetworkManager \<Rightarrow> bool \<times> WpaSupplicantNetworkManager" where
  "DisconnectAll interface_name s =
     (let m = Request ''P2P_GROUP_REMOVE'' [StrArg interface_name];
          ret = False;
          (ret, s1) = RequestAsync m DisconnectAllReply ret s
      in (ret, s1))"

subsection \<open>The main loop and the events the manager receives\<close>

text \<open>What the environment answers when a callback asks: the results of \<^verbatim>\<open>::socket\<close>,
  \<^verbatim>\<open>::bind\<close>, \<^verbatim>\<open>::connect\<close> and \<^verbatim>\<open>g_io_add_watch\<close> for \<^verbatim>\<open>ConnectSupplicant\<close>, of
  \<^verbatim>\<open>CreateSupplicantConfig\<close> and \<^verbatim>\<open>g_spawn_async\<close> for \<^verbatim>\<open>StartSupplicant\<close>.\<close>

record environment =
  env_fd :: int
  env_bind :: int
  env_connect :: int
  env_watch_ok :: bool
  env_config_written :: bool
  env_spawned :: "int option"

definition call_source_func ::
  "GSourceFunc \<Rightarrow> environment \<Rightarrow> WpaSupplicantNetworkManager
     \<Rightarrow> error + bool \<times> WpaSupplicantNetworkManager" where
  "call_source_func f env s =
     (case f of
        OnConnectSupplicantFunc \<Rightarrow>
          Inr (OnConnectSupplicant (env_fd env) (env_bind env) (env_connect env) (env_watch_ok env) s)
      | OnSupplicantRespawnFunc \<Rightarrow>
          Inr (OnSupplicantRespawn (env_config_written env) (env_spawned env) s)
      | OnGroupClientDhcpTimeoutFunc \<Rightarrow> Inr (OnGroupClientDhcpTimeout s)
      | OnDeviceFailureTimeoutFunc \<Rightarrow> OnDeviceFailureTimeout s)"

text \<open>A timeout source of the main loop fires: its function is called, and the source
  is detached when the function returns \<^verbatim>\<open>FALSE\<close>. An id that names no timeout source
  fires nothing.\<close>

definition timeout_fires ::
  "nat \<Rightarrow> environment \<Rightarrow> WpaSupplicantNetworkManager \<Rightarrow> error + WpaSupplicantNetworkManager" where
  "timeout_fires tag env s =
     (case map_of (sources s) tag of
        Some (Timeout interval f) \<Rightarrow>
          (case call_source_func f env s of
             Inl e \<Rightarrow> Inl e
           | Inr (again, s1) \<Rightarrow> Inr (if again then s1 else g_source_remove tag s1))
      | _ \<Rightarrow> Inr s)"

datatype operation =
  P2pDeviceFound string string
  | P2pDeviceLost string
  | P2pGroupStarted string
  | P2pGroupRemoved string
  | AddressAssigned string
  | TimeoutFires nat environment
  | SupplicantExits bool
  | Hangup
  | SupplicantFailed
  | CallSetup bool bool environment
  | FirmwareLoaded environment
  | FirmwareUnloaded
  | CallScan nat
  | CallConnect ptr
  | CallDisconnectAll
  | CallReset
  | ReplyArrives bool

text \<open>One step of the manager: an unsolicited event (\<^verbatim>\<open>OnUnsolicitedResponse\<close> routes it by
  name), a reply of the supplicant, a callback of the DHCP client, of the main loop or of
  the firmware loader, or a call from the upper layers. The manager is bound to the
  interface \<^verbatim>\<open>p2p0\<close>.\<close>

definition step ::
  "operation \<Rightarrow> WpaSupplicantNetworkManager \<Rightarrow> error + WpaSupplicantNetworkManager" where
  "step op s =
     (case op of
        P2pDeviceFound address name \<Rightarrow> OnP2pDeviceFound address name s
      | P2pDeviceLost address \<Rightarrow> Inr (OnP2pDeviceLost address s)
      | P2pGroupStarted role \<Rightarrow> Inr (OnP2pGroupStarted role s)
      | P2pGroupRemoved reason \<Rightarrow> OnP2pGroupRemoved reason s
      | AddressAssigned address \<Rightarrow> Inr (OnAddressAssigned address s)
      | TimeoutFires tag env \<Rightarrow> timeout_fires tag env s
      | SupplicantExits exit_ok \<Rightarrow> Inr (OnSupplicantWatch exit_ok s)
      | Hangup \<Rightarrow> Inr (StopSupplicant s)
      | SupplicantFailed \<Rightarrow> Inr (HandleSupplicantFailed s)
      | CallSetup needed loaded env \<Rightarrow>
          Inr (snd (Setup needed loaded (env_config_written env) (env_spawned env) s))
      | FirmwareLoaded env \<Rightarrow> Inr (OnFirmwareLoaded (env_config_written env) (env_spawned env) s)
      | FirmwareUnloaded \<Rightarrow> Inr (OnFirmwareUnloaded s)
      | CallScan timeout \<Rightarrow> Inr (Scan timeout s)
      | CallConnect device \<Rightarrow> map_sum id snd (Connect device s)
      | CallDisconnectAll \<Rightarrow> Inr (snd (DisconnectAll ''p2p0'' s))
      | CallReset \<Rightarrow> Inr (Reset s)
      | ReplyArrives is_fail \<Rightarrow> Inr (HandleReply is_fail s))"

fun run ::
  "operation list \<Rightarrow> WpaSupplicantNetworkManager \<Rightarrow> error + WpaSupplicantNetworkManager" where
  "run [] s = Inr s"
| "run (op # ops) s = (case step op s of Inl e \<Rightarrow> Inl e | Inr s1 \<Rightarrow> run ops s1)"

text \<open>
  A connect to the supplicant that succeeds, said of the environment alone: the
  timeout with id \<open>tag\<close> that fires is the one that calls \<^verbatim>\<open>OnConnectSupplicant\<close>,
  \<^verbatim>\<open>::socket\<close>, \<^verbatim>\<open>::bind\<close> and \<^verbatim>\<open>::connect\<close> return no negative value, and
  \<^verbatim>\<open>g_io_add_watch\<close> returns an id other than 0.
\<close>

definition connects :: "operation \<Rightarrow> WpaSupplicantNetworkManager \<Rightarrow> bool" where
  "connects op s =
     (case op of
        TimeoutFires tag env \<Rightarrow>
          (case map_of (sources s) tag of
             Some (Timeout interval OnConnectSupplicantFunc) \<Rightarrow>
               0 \<le> env_fd env \<and> 0 \<le> env_bind env \<and> 0 \<le> env_connect env \<and> env_watch_ok env
           | _ \<Rightarrow> False)
      | _ \<Rightarrow> False)"

text \<open>The ids the manager holds were handed out by the main loop.\<close>

definition ids_issued :: "WpaSupplicantNetworkManager \<Rightarrow> bool" where
  "ids_issued s =
     (channel_watch s \<le> source_count s \<and> dhcp_timeout s \<le> source_count s
      \<and> respawn_source s \<le> source_count s
      \<and> list_all (\<lambda>e. 0 < fst e \<and> fst e \<le> source_count s) (sources s))"

text \<open>Every entry of the table is a peer, stored under its own address.\<close>

definition peers_keyed :: "WpaSupplicantNetworkManager \<Rightarrow> bool" where
  "peers_keyed s =
     list_all (\<lambda>e. case snd e of None \<Rightarrow> False | Some p \<Rightarrow> Address (store s p) = fst e)
       (available_devices s)"

subsection \<open>The states of the scenarios\<close>

definition example_address :: string where
  "example_address = ''4e:74:03:70:e2:c1''"

definition example_env :: environment where
  "example_env = \<lparr>env_fd = 3, env_bind = 0, env_connect = 0, env_watch_ok = True,
                   env_config_written = True, env_spawned = Some 1234\<rparr>"

text \<open>A manager with a delegate, as constructed.\<close>

definition s_initial :: WpaSupplicantNetworkManager where
  "s_initial = constructor True 0 0"

text \<open>After the peer of the example was found.\<close>

definition s_discovered :: WpaSupplicantNetworkManager where
  "s_discovered =
     s_initial\<lparr>store := (\<lambda>_. new_NetworkDevice)
                   (0 := \<lparr>Address = example_address, Name = ''Aquaris M10'', State = kIdle\<rparr>),
               store_next := 1,
               available_devices := [(example_address, Some 0)],
               calls := [OnDeviceFound (Some 0)]\<rparr>"

text \<open>After \<^verbatim>\<open>Connect\<close> to that peer.\<close>

definition s_connecting :: WpaSupplicantNetworkManager where
  "s_connecting =
     s_discovered\<lparr>current_peer := Some 0,
                  command_queue :=
                    [(Request ''P2P_CONNECT'' [StrArg example_address, StrArg ''pbc''], ConnectReply)],
                  calls := [OnDeviceFound (Some 0),
                            WriteMessage (Request ''P2P_CONNECT''
                                            [StrArg example_address, StrArg ''pbc''])]\<rparr>"

text \<open>After \<^verbatim>\<open>P2P-GROUP-STARTED p2p0 client\<close>: the manager waits for its DHCP lease.\<close>

definition s_client_waiting :: WpaSupplicantNetworkManager where
  "s_client_waiting = OnP2pGroupStarted ''client'' s_connecting"

text \<open>After the DHCP-acquisition timeout has fired in that state.\<close>

definition s_dhcp_failed :: WpaSupplicantNetworkManager where
  "s_dhcp_failed = snd (OnGroupClientDhcpTimeout s_client_waiting)"

text \<open>After \<^verbatim>\<open>P2P-DEVICE-LOST\<close> for an address that was never found.\<close>

definition s_lost_unknown :: WpaSupplicantNetworkManager where
  "s_lost_unknown = OnP2pDeviceLost example_address s_initial"

text \<open>With the respawn budget used up.\<close>

definition s_exhausted :: WpaSupplicantNetworkManager where
  "s_exhausted = s_discovered\<lparr>respawn_limit := 0\<rparr>"

text \<open>After the supplicant has failed, and after the respawn timeout has then started
  it again.\<close>

definition s_failed :: WpaSupplicantNetworkManager where
  "s_failed = HandleSupplicantFailed s_discovered"

definition s_respawning :: WpaSupplicantNetworkManager where
  "s_respawning = g_source_remove 1 (snd (OnSupplicantRespawn True (Some 1234) s_failed))"

section \<open>Properties\<close>

subsection \<open>Auxiliary facts\<close>

lemma foldl_calls:
  "foldl (\<lambda>acc peer. acc\<lparr>calls := calls acc @ [f peer]\<rparr>) s xs
     = s\<lparr>calls := calls s @ map f xs\<rparr>"
  by (induction xs arbitrary: s) simp_all

lemmas helper_defs = emit_def notify_def notify_state_changed_def set_state_def SetState_def
  g_source_remove_def g_source_attach_def g_timeout_add_def EnqueueCommand_def RequestAsync_def

lemmas scenario_defs = s_initial_def s_discovered_def s_connecting_def example_address_def
  constructor_def new_NetworkDevice_def kSupplicantRespawnLimit_def

text \<open>A key that is new to the container is placed by key order.\<close>

lemma table_index_key_order:
  "table_index ''4e:74:03:64:95:a7'' [(example_address, Some 0)]
     = (None, [(''4e:74:03:64:95:a7'', None), (example_address, Some 0)])"
  by (simp add: table_index_def example_address_def)

text \<open>The scenario states are states the manager reaches from its constructor.\<close>

lemma s_discovered_reached:
  "run [P2pDeviceFound example_address ''Aquaris M10''] s_initial = Inr s_discovered"
  by (simp add: step_def OnP2pDeviceFound_def Let_def table_assign_def table_index_def
      SetName_def SetAddress_def helper_defs scenario_defs)

lemma s_connecting_reached:
  "run [CallConnect (Some 0)] s_discovered = Inr s_connecting"
  by (simp add: step_def Connect_def Let_def table_find_def table_index_def helper_defs
      scenario_defs)

lemma s_client_waiting_eq:
  "s_client_waiting =
     s_connecting\<lparr>store := (store s_connecting)
                     (0 := \<lparr>Address = example_address, Name = ''Aquaris M10'',
                            State = kConfiguration\<rparr>),
                  dhcp_timeout := 1,
                  sources := [(1, Timeout 5000 OnGroupClientDhcpTimeoutFunc)],
                  source_count := 1,
                  calls := calls s_connecting
                           @ [OnDeviceStateChanged (Some 0) kConfiguration, DhcpClientStart]\<rparr>"
  by (simp add: s_client_waiting_def OnP2pGroupStarted_def Let_def helper_defs scenario_defs
      kDhcpIpAssignmentTimeout_def)

subsection \<open>Reset\<close>

lemma Reset_current_peer: "current_peer (Reset s) = None"
  by (simp add: Reset_def Let_def foldl_calls helper_defs split: option.splits)

lemma Reset_available_devices: "available_devices (Reset s) = []"
  by (simp add: Reset_def Let_def)

lemma Reset_is_group_owner: "is_group_owner (Reset s) = False"
  by (simp add: Reset_def Let_def)

lemma Reset_fixed:
  "current_peer s = None \<Longrightarrow> available_devices s = [] \<Longrightarrow> \<not> is_group_owner s \<Longrightarrow> Reset s = s"
  by (simp add: Reset_def Let_def)

text \<open>
  Claim C9. \<^verbatim>\<open>Reset\<close> is idempotent: for every state of the manager, a second \<^verbatim>\<open>Reset\<close>
  right after the first leaves the state the first one produced, so it makes no call to
  the delegate (the trace does not grow); after the first run the current peer is null,
  the peer table is empty and the role flag is false.
\<close>

theorem Reset_idempotent:
  "Reset (Reset s) = Reset s
   \<and> calls (Reset (Reset s)) = calls (Reset s)
   \<and> current_peer (Reset s) = None
   \<and> available_devices (Reset s) = []
   \<and> \<not> is_group_owner (Reset s)"
proof -
  have "Reset (Reset s) = Reset s"
    by (rule Reset_fixed)
      (simp_all add: Reset_current_peer Reset_available_devices Reset_is_group_owner)
  then show ?thesis
    by (simp add: Reset_current_peer Reset_available_devices Reset_is_group_owner)
qed

subsection \<open>The DHCP client reports an address\<close>

text \<open>
  Claim C8. \<^verbatim>\<open>OnAddressAssigned\<close> changes nothing when there is no current peer, whatever
  the address. With a current peer \<open>p\<close> it cancels the DHCP-acquisition timeout (the field
  is 0 afterwards and the source it named is detached from the main loop), sets the state
  of \<open>p\<close> to connected and calls \<^verbatim>\<open>OnDeviceStateChanged\<close> of the delegate, if there is
  one, with \<open>p\<close> in that state; the current peer stays, and no other peer and no other
  attribute of \<open>p\<close> changes.
\<close>

theorem OnAddressAssigned_spec:
  "(current_peer s = None \<longrightarrow> OnAddressAssigned a s = s)
   \<and> (\<forall>p. current_peer s = Some p \<longrightarrow>
         dhcp_timeout (OnAddressAssigned a s) = 0
         \<and> sources (OnAddressAssigned a s) =
             (if dhcp_timeout s > 0 then filter (\<lambda>e. fst e \<noteq> dhcp_timeout s) (sources s)
              else sources s)
         \<and> State (store (OnAddressAssigned a s) p) = kConnected
         \<and> calls (OnAddressAssigned a s) =
             calls s @ (if delegate s then [OnDeviceStateChanged (Some p) kConnected] else [])
         \<and> current_peer (OnAddressAssigned a s) = Some p
         \<and> (\<forall>q. q \<noteq> p \<longrightarrow> store (OnAddressAssigned a s) q = store s q)
         \<and> Address (store (OnAddressAssigned a s) p) = Address (store s p)
         \<and> Name (store (OnAddressAssigned a s) p) = Name (store s p))"
  by (simp add: OnAddressAssigned_def Let_def helper_defs)

theorem OnAddressAssigned_spec_witness:
  "current_peer s_discovered = None
   \<and> OnAddressAssigned ''192.168.49.3'' s_discovered = s_discovered
   \<and> current_peer s_client_waiting = Some 0
   \<and> dhcp_timeout (OnAddressAssigned ''192.168.49.3'' s_client_waiting) = 0
   \<and> sources (OnAddressAssigned ''192.168.49.3'' s_client_waiting) = []
   \<and> State (store (OnAddressAssigned ''192.168.49.3'' s_client_waiting) 0) = kConnected
   \<and> calls (OnAddressAssigned ''192.168.49.3'' s_client_waiting) =
       calls s_client_waiting @ [OnDeviceStateChanged (Some 0) kConnected]"
  using OnAddressAssigned_spec [where s = s_discovered and a = "''192.168.49.3''"]
    OnAddressAssigned_spec [where s = s_client_waiting and a = "''192.168.49.3''"]
  by (simp add: s_client_waiting_eq scenario_defs)

subsection \<open>A group has started\<close>

text \<open>
  Claim C4. When \<^verbatim>\<open>P2P-GROUP-STARTED\<close> arrives while there is a current peer \<open>p\<close>, the
  peer is first set to configuration and the delegate notified. If the role token is
  exactly \<^verbatim>\<open>GO\<close>, the role flag becomes true, the peer is set to connected, the DHCP
  server is started, the delegate is notified again, and no timeout is armed (the sources
  of the main loop and the timeout field are as before). For any other role token the
  role flag becomes false, the DHCP client is started, the peer stays in configuration,
  and a timeout of 5000 ms that calls \<^verbatim>\<open>OnGroupClientDhcpTimeout\<close> is attached and kept
  in the timeout field. Without a current peer the event changes nothing. The
  notifications are made if there is a delegate.
\<close>

theorem OnP2pGroupStarted_spec:
  "(current_peer s = None \<longrightarrow> OnP2pGroupStarted role s = s)
   \<and> (\<forall>p. current_peer s = Some p \<and> role = ''GO'' \<longrightarrow>
         is_group_owner (OnP2pGroupStarted role s)
         \<and> State (store (OnP2pGroupStarted role s) p) = kConnected
         \<and> calls (OnP2pGroupStarted role s) =
             calls s
             @ (if delegate s then [OnDeviceStateChanged (Some p) kConfiguration] else [])
             @ [DhcpServerStart]
             @ (if delegate s then [OnDeviceStateChanged (Some p) kConnected] else [])
         \<and> sources (OnP2pGroupStarted role s) = sources s
         \<and> dhcp_timeout (OnP2pGroupStarted role s) = dhcp_timeout s)
   \<and> (\<forall>p. current_peer s = Some p \<and> role \<noteq> ''GO'' \<longrightarrow>
         \<not> is_group_owner (OnP2pGroupStarted role s)
         \<and> State (store (OnP2pGroupStarted role s) p) = kConfiguration
         \<and> calls (OnP2pGroupStarted role s) =
             calls s
             @ (if delegate s then [OnDeviceStateChanged (Some p) kConfiguration] else [])
             @ [DhcpClientStart]
         \<and> sources (OnP2pGroupStarted role s) =
             sources s @ [(Suc (source_count s), Timeout 5000 OnGroupClientDhcpTimeoutFunc)]
         \<and> dhcp_timeout (OnP2pGroupStarted role s) = Suc (source_count s))"
  by (simp add: OnP2pGroupStarted_def Let_def helper_defs kDhcpIpAssignmentTimeout_def)

theorem OnP2pGroupStarted_spec_witness:
  "current_peer s_discovered = None
   \<and> OnP2pGroupStarted ''GO'' s_discovered = s_discovered
   \<and> current_peer s_connecting = Some 0
   \<and> is_group_owner (OnP2pGroupStarted ''GO'' s_connecting)
   \<and> State (store (OnP2pGroupStarted ''GO'' s_connecting) 0) = kConnected
   \<and> calls (OnP2pGroupStarted ''GO'' s_connecting) =
       calls s_connecting @ [OnDeviceStateChanged (Some 0) kConfiguration, DhcpServerStart,
                             OnDeviceStateChanged (Some 0) kConnected]
   \<and> sources (OnP2pGroupStarted ''GO'' s_connecting) = []
   \<and> ''client'' \<noteq> ''GO''
   \<and> \<not> is_group_owner (OnP2pGroupStarted ''client'' s_connecting)
   \<and> State (store (OnP2pGroupStarted ''client'' s_connecting) 0) = kConfiguration
   \<and> calls (OnP2pGroupStarted ''client'' s_connecting) =
       calls s_connecting @ [OnDeviceStateChanged (Some 0) kConfiguration, DhcpClientStart]
   \<and> sources (OnP2pGroupStarted ''client'' s_connecting) =
       [(1, Timeout 5000 OnGroupClientDhcpTimeoutFunc)]
   \<and> dhcp_timeout (OnP2pGroupStarted ''client'' s_connecting) = 1"
  using OnP2pGroupStarted_spec [where s = s_discovered and role = "''GO''"]
    OnP2pGroupStarted_spec [where s = s_connecting and role = "''GO''"]
    OnP2pGroupStarted_spec [where s = s_connecting and role = "''client''"]
  by (simp add: scenario_defs)

subsection \<open>Connect and DisconnectAll\<close>

lemma table_find_iff: "table_find k t \<longleftrightarrow> k \<in> fst ` set t"
  by (simp add: table_find_def map_of_eq_None_iff)

lemma table_index_present:
  "map_of t k = Some v \<Longrightarrow> table_index k t = (v, t)"
  by (simp add: table_index_def)

text \<open>
  Claim C6. For every device, \<^verbatim>\<open>Connect\<close> fails (returns false) when the address of the
  device is not a key of the peer table or when there is a current peer already, and
  then the whole state is as before: the current peer, the peer table and the queue of
  requests with it. Otherwise the current peer becomes the entry the table holds at that
  address, the request \<^verbatim>\<open>P2P_CONNECT <address> pbc\<close> is appended to the queue, and the
  table and the peers are as before.
\<close>

theorem Connect_spec:
  "(Address (store s d) \<notin> fst ` set (available_devices s) \<or> current_peer s \<noteq> None
      \<longrightarrow> Connect (Some d) s = Inr (False, s))
   \<and> (Address (store s d) \<in> fst ` set (available_devices s) \<and> current_peer s = None
      \<longrightarrow> (\<exists>s'. Connect (Some d) s = Inr (False, s')
            \<and> map_of (available_devices s) (Address (store s d)) = Some (current_peer s')
            \<and> command_queue s' =
                command_queue s
                @ [(Request ''P2P_CONNECT'' [StrArg (Address (store s d)), StrArg ''pbc''],
                    ConnectReply)]
            \<and> available_devices s' = available_devices s
            \<and> store s' = store s))"
proof (intro conjI impI)
  assume "Address (store s d) \<notin> fst ` set (available_devices s) \<or> current_peer s \<noteq> None"
  then show "Connect (Some d) s = Inr (False, s)"
    by (auto simp: Connect_def Let_def table_find_iff)
next
  assume a: "Address (store s d) \<in> fst ` set (available_devices s) \<and> current_peer s = None"
  then obtain v where v: "map_of (available_devices s) (Address (store s d)) = Some v"
    by (metis table_find_iff table_find_def not_Some_eq)
  from a v show "\<exists>s'. Connect (Some d) s = Inr (False, s')
            \<and> map_of (available_devices s) (Address (store s d)) = Some (current_peer s')
            \<and> command_queue s' =
                command_queue s
                @ [(Request ''P2P_CONNECT'' [StrArg (Address (store s d)), StrArg ''pbc''],
                    ConnectReply)]
            \<and> available_devices s' = available_devices s
            \<and> store s' = store s"
    by (simp add: Connect_def Let_def table_find_iff table_index_present helper_defs)
qed

theorem Connect_spec_witness:
  "Address (store s_connecting 0) \<in> fst ` set (available_devices s_connecting)
   \<and> current_peer s_connecting \<noteq> None
   \<and> Connect (Some 0) s_connecting = Inr (False, s_connecting)
   \<and> Address (store s_discovered 1) \<notin> fst ` set (available_devices s_discovered)
   \<and> Connect (Some 1) s_discovered = Inr (False, s_discovered)
   \<and> Address (store s_discovered 0) \<in> fst ` set (available_devices s_discovered)
   \<and> current_peer s_discovered = None
   \<and> (\<exists>s'. Connect (Some 0) s_discovered = Inr (False, s')
         \<and> current_peer s' = Some 0
         \<and> command_queue s' =
             [(Request ''P2P_CONNECT'' [StrArg ''4e:74:03:70:e2:c1'', StrArg ''pbc''], ConnectReply)])"
  using Connect_spec [where s = s_connecting and d = 0]
    Connect_spec [where s = s_discovered and d = 1]
    Connect_spec [where s = s_discovered and d = 0]
  by (auto simp: scenario_defs)

lemma handler_runs_append:
  "handler_runs (xs @ ys) = handler_runs xs @ handler_runs ys"
  by (induction xs rule: handler_runs.induct) simp_all

text \<open>The queue leaves the captured variable as it is and runs no handler when a
  request is enqueued.\<close>

lemma RequestAsync_stores_handler:
  "fst (RequestAsync m h captured s) = captured
   \<and> handler_runs (calls (snd (RequestAsync m h captured s))) = handler_runs (calls s)
   \<and> command_queue (snd (RequestAsync m h captured s)) = command_queue s @ [(m, h)]"
  by (simp add: RequestAsync_def EnqueueCommand_def Let_def emit_def handler_runs_append)

text \<open>A reply runs the handler of the request in flight, and pops the request.\<close>

lemma HandleReply_runs_handler:
  "command_queue s = (m, h) # rest \<Longrightarrow>
     handler_runs (calls (HandleReply is_fail s)) = handler_runs (calls s) @ [(h, is_fail)]
     \<and> command_queue (HandleReply is_fail s) = rest"
  by (simp add: HandleReply_def Let_def emit_def handler_runs_append split: list.splits)

text \<open>
  Claim C7. \<^verbatim>\<open>Connect\<close> and \<^verbatim>\<open>DisconnectAll\<close> return the local \<^verbatim>\<open>ret\<close>, which is false
  until the reply handler they pass to the queue assigns it. Enqueueing a request runs
  no handler and leaves the captured variable as it is. So, when the preconditions of
  \<^verbatim>\<open>Connect\<close> hold, it returns false, with its handler waiting in the queue behind the
  request and no run of a handler added to the trace; whenever \<^verbatim>\<open>Connect\<close> returns, it
  returns false and no handler has run in it; \<^verbatim>\<open>DisconnectAll\<close> returns false in the same
  way. A handler runs when the reply to its request comes in, a later step of the
  manager, and either of the two handlers, run on a reply that is no failure, assigns
  true.
\<close>

theorem Connect_returns_false:
  "(Address (store s d) \<in> fst ` set (available_devices s) \<and> current_peer s = None
      \<longrightarrow> (\<exists>s'. Connect (Some d) s = Inr (False, s')
            \<and> last (command_queue s') =
                (Request ''P2P_CONNECT'' [StrArg (Address (store s d)), StrArg ''pbc''],
                 ConnectReply)
            \<and> handler_runs (calls s') = handler_runs (calls s)))
   \<and> (\<forall>r s'. Connect device s = Inr (r, s')
         \<longrightarrow> \<not> r \<and> handler_runs (calls s') = handler_runs (calls s))
   \<and> (\<exists>s'. DisconnectAll i s = (False, s')
         \<and> last (command_queue s') = (Request ''P2P_GROUP_REMOVE'' [StrArg i], DisconnectAllReply)
         \<and> handler_runs (calls s') = handler_runs (calls s))
   \<and> (\<forall>m h. fst (RequestAsync m h captured s) = captured
         \<and> handler_runs (calls (snd (RequestAsync m h captured s))) = handler_runs (calls s)
         \<and> command_queue (snd (RequestAsync m h captured s)) = command_queue s @ [(m, h)])
   \<and> (\<forall>m h rest is_fail. command_queue s = (m, h) # rest \<longrightarrow>
         handler_runs (calls (HandleReply is_fail s)) = handler_runs (calls s) @ [(h, is_fail)]
         \<and> command_queue (HandleReply is_fail s) = rest
         \<and> step (ReplyArrives is_fail) s = Inr (HandleReply is_fail s))
   \<and> run_reply_handler ConnectReply False ret
   \<and> run_reply_handler DisconnectAllReply False ret"
proof (intro conjI impI allI)
  assume a: "Address (store s d) \<in> fst ` set (available_devices s) \<and> current_peer s = None"
  then obtain v where v: "map_of (available_devices s) (Address (store s d)) = Some v"
    by (metis table_find_iff table_find_def not_Some_eq)
  let ?m = "Request ''P2P_CONNECT'' [StrArg (Address (store s d)), StrArg ''pbc'']"
  let ?s1 = "s\<lparr>available_devices := available_devices s, current_peer := v\<rparr>"
  obtain r s2 where rs: "RequestAsync ?m ConnectReply False ?s1 = (r, s2)"
    by (cases "RequestAsync ?m ConnectReply False ?s1")
  with RequestAsync_stores_handler [of ?m ConnectReply False ?s1]
  have q: "r = False" "handler_runs (calls s2) = handler_runs (calls s)"
    "command_queue s2 = command_queue s @ [(?m, ConnectReply)]"
    by simp_all
  from a v rs have "Connect (Some d) s = Inr (r, s2)"
    by (simp add: Connect_def Let_def table_find_iff table_index_present)
  with q show "\<exists>s'. Connect (Some d) s = Inr (False, s')
            \<and> last (command_queue s') =
                (Request ''P2P_CONNECT'' [StrArg (Address (store s d)), StrArg ''pbc''],
                 ConnectReply)
            \<and> handler_runs (calls s') = handler_runs (calls s)"
    by simp
next
  fix r s' assume c: "Connect device s = Inr (r, s')"
  then show "\<not> r"
    by (auto simp: Connect_def Let_def RequestAsync_def EnqueueCommand_def
        split: option.splits if_splits prod.splits)
next
  fix r s' assume c: "Connect device s = Inr (r, s')"
  then show "handler_runs (calls s') = handler_runs (calls s)"
    by (auto simp: Connect_def Let_def RequestAsync_def EnqueueCommand_def emit_def
        handler_runs_append split: option.splits if_splits prod.splits)
next
  let ?m = "Request ''P2P_GROUP_REMOVE'' [StrArg i]"
  obtain r s2 where rs: "RequestAsync ?m DisconnectAllReply False s = (r, s2)"
    by (cases "RequestAsync ?m DisconnectAllReply False s")
  with RequestAsync_stores_handler [of ?m DisconnectAllReply False s]
  have q: "r = False" "handler_runs (calls s2) = handler_runs (calls s)"
    "command_queue s2 = command_queue s @ [(?m, DisconnectAllReply)]"
    by simp_all
  from rs have "DisconnectAll i s = (r, s2)"
    by (simp add: DisconnectAll_def Let_def)
  with q show "\<exists>s'. DisconnectAll i s = (False, s')
         \<and> last (command_queue s') = (Request ''P2P_GROUP_REMOVE'' [StrArg i], DisconnectAllReply)
         \<and> handler_runs (calls s') = handler_runs (calls s)"
    by simp
next
  fix m h rest is_fail assume "command_queue s = (m, h) # rest"
  then show "handler_runs (calls (HandleReply is_fail s)) = handler_runs (calls s) @ [(h, is_fail)]"
    and "command_queue (HandleReply is_fail s) = rest"
    by (simp_all add: HandleReply_runs_handler)
next
  fix is_fail
  show "step (ReplyArrives is_fail) s = Inr (HandleReply is_fail s)"
    by (simp add: step_def)
qed (simp_all add: RequestAsync_stores_handler)

theorem Connect_returns_false_witness:
  "Address (store s_discovered 0) \<in> fst ` set (available_devices s_discovered)
   \<and> current_peer s_discovered = None
   \<and> Connect (Some 0) s_discovered = Inr (False, s_connecting)
   \<and> command_queue s_connecting =
       [(Request ''P2P_CONNECT'' [StrArg example_address, StrArg ''pbc''], ConnectReply)]
   \<and> handler_runs (calls s_connecting) = []
   \<and> step (ReplyArrives False) s_connecting = Inr (HandleReply False s_connecting)
   \<and> handler_runs (calls (HandleReply False s_connecting)) = [(ConnectReply, False)]
   \<and> command_queue (HandleReply False s_connecting) = []
   \<and> run_reply_handler ConnectReply False False"
proof -
  have a: "Address (store s_discovered 0) \<in> fst ` set (available_devices s_discovered)"
    "current_peer s_discovered = None"
    by (simp_all add: scenario_defs)
  have b: "Connect (Some 0) s_discovered = Inr (False, s_connecting)"
    by (simp add: Connect_def Let_def table_find_def table_index_def helper_defs scenario_defs)
  have c: "command_queue s_connecting =
       [(Request ''P2P_CONNECT'' [StrArg example_address, StrArg ''pbc''], ConnectReply)]"
    "handler_runs (calls s_connecting) = []"
    by (simp_all add: scenario_defs)
  note A = Connect_returns_false [where s = s_discovered and d = 0 and device = "Some 0"
      and i = "''p2p0''" and captured = False and ret = False]
  note B = Connect_returns_false [where s = s_connecting and d = 0 and device = "Some 0"
      and i = "''p2p0''" and captured = False and ret = False]
  from A a b have 1: "handler_runs (calls s_connecting) = handler_runs (calls s_discovered)"
    by simp
  from B have 2: "command_queue s_connecting = (m, h) # rest \<Longrightarrow>
         handler_runs (calls (HandleReply is_fail s_connecting))
           = handler_runs (calls s_connecting) @ [(h, is_fail)]
         \<and> command_queue (HandleReply is_fail s_connecting) = rest
         \<and> step (ReplyArrives is_fail) s_connecting = Inr (HandleReply is_fail s_connecting)"
    for m h rest is_fail
    by blast
  from B have 3: "run_reply_handler ConnectReply False False" by blast
  from 2 [OF c(1), of False] c(2)
  have 4: "handler_runs (calls (HandleReply False s_connecting)) = [(ConnectReply, False)]"
    "command_queue (HandleReply False s_connecting) = []"
    "step (ReplyArrives False) s_connecting = Inr (HandleReply False s_connecting)"
    by simp_all
  show ?thesis using a b c 3 4 by simp
qed

subsection \<open>A group was removed\<close>

lemma OnP2pGroupRemoved_with_peer:
  "current_peer s = Some p \<Longrightarrow> OnP2pGroupRemoved reason s = Inr s"
  by (simp add: OnP2pGroupRemoved_def)

lemma OnP2pGroupRemoved_without_peer:
  "current_peer s = None \<Longrightarrow> OnP2pGroupRemoved reason s = Inl NullPointerDereference"
  by (simp add: OnP2pGroupRemoved_def)

text \<open>
  Claim C1 asks that \<^verbatim>\<open>P2P-GROUP-REMOVED\<close> be a no-op without a current peer and
  that, with one, the peer go to failure or disconnected, the delegate be notified and
  the current peer, the timeout, both DHCP sides and the role flag be cleared. The guard
  of \<^verbatim>\<open>OnP2pGroupRemoved\<close> is the other way round. With the current peer of the
  scenario, \<^verbatim>\<open>reason=FORMATION_FAILED\<close> leaves the whole state as it was: the peer is
  still idle and still current, and nothing is added to the trace. Without a current
  peer the handler does not return: it dereferences the null \<^verbatim>\<open>current_peer_\<close>.
\<close>

theorem OnP2pGroupRemoved_guard_inverted:
  "current_peer s_connecting = Some 0
   \<and> OnP2pGroupRemoved ''FORMATION_FAILED'' s_connecting = Inr s_connecting
   \<and> State (store s_connecting 0) = kIdle
   \<and> current_peer s_discovered = None
   \<and> OnP2pGroupRemoved ''FORMATION_FAILED'' s_discovered = Inl NullPointerDereference"
  by (simp add: OnP2pGroupRemoved_def scenario_defs)

subsection \<open>A device was lost\<close>

text \<open>\<^verbatim>\<open>OnP2pDeviceLost\<close> removes no key, and adds the address of the event when it is
  not a key yet.\<close>

lemma OnP2pDeviceLost_keys:
  "fst ` set (available_devices (OnP2pDeviceLost a s))
     = insert a (fst ` set (available_devices s))"
  by (cases "map_of (available_devices s) a")
     (auto simp: OnP2pDeviceLost_def table_index_def Let_def helper_defs set_insort_key
        dest: map_of_SomeD intro: rev_image_eqI)

text \<open>
  Claim C2 asks that \<^verbatim>\<open>P2P-DEVICE-LOST\<close> leave the table unchanged for an address that
  is not in it and, for one that is, call \<^verbatim>\<open>OnDeviceLost\<close> and remove the entry. In the
  code, for the peer of the scenario, the delegate is called and the entry is still in
  the table afterwards; for an address that is not in the empty table of the initial
  state, the table afterwards holds that address with a null pointer.
\<close>

theorem OnP2pDeviceLost_keeps_entry:
  "map_of (available_devices s_discovered) example_address = Some (Some 0)
   \<and> calls (OnP2pDeviceLost example_address s_discovered)
       = calls s_discovered @ [OnDeviceLost (Some 0)]
   \<and> available_devices (OnP2pDeviceLost example_address s_discovered)
       = [(example_address, Some 0)]
   \<and> available_devices s_initial = []
   \<and> available_devices (OnP2pDeviceLost example_address s_initial)
       = [(example_address, None)]"
  by (simp add: OnP2pDeviceLost_def table_index_def Let_def helper_defs scenario_defs)

subsection \<open>The DHCP-acquisition timeout and the cooldown after it\<close>

lemma OnDeviceFailureTimeout_silent:
  "current_peer s = Some p \<Longrightarrow>
     OnDeviceFailureTimeout s = Inr (False, set_state p kIdle s)
     \<and> calls (set_state p kIdle s) = calls s"
  by (simp add: OnDeviceFailureTimeout_def set_state_def)

lemma OnDeviceFailureTimeout_null:
  "current_peer s = None \<Longrightarrow> OnDeviceFailureTimeout s = Inl NullPointerDereference"
  by (simp add: OnDeviceFailureTimeout_def)

lemma s_dhcp_failed_eq:
  "s_dhcp_failed =
     s_client_waiting\<lparr>store := (store s_client_waiting)
                         (0 := \<lparr>Address = example_address, Name = ''Aquaris M10'',
                                State = kFailure\<rparr>),
                      sources := [(1, Timeout 5000 OnGroupClientDhcpTimeoutFunc),
                                  (2, Timeout 5000 OnDeviceFailureTimeoutFunc)],
                      source_count := 2,
                      calls := calls s_client_waiting
                               @ [OnDeviceStateChanged (Some 0) kFailure]\<rparr>"
  by (simp add: s_dhcp_failed_def s_client_waiting_eq OnGroupClientDhcpTimeout_def Let_def
      helper_defs scenario_defs kPeerFailureTimeout_def)

text \<open>
  Claim C3 asks that the DHCP-acquisition timeout set the current peer to failure and
  notify the delegate, and that the cooldown, 5 s later, set the peer to idle and notify
  the delegate again. In the scenario, with a delegate, \<^verbatim>\<open>OnGroupClientDhcpTimeout\<close> sets
  the peer to failure, notifies the delegate and arms the cooldown of 5000 ms. When the
  cooldown fires, \<^verbatim>\<open>OnDeviceFailureTimeout\<close> sets the peer, still current, to idle, and
  the trace is as before: the delegate is not called.
\<close>

theorem OnDeviceFailureTimeout_no_notification:
  "delegate s_client_waiting
   \<and> current_peer s_client_waiting = Some 0
   \<and> OnGroupClientDhcpTimeout s_client_waiting = (False, s_dhcp_failed)
   \<and> State (store s_dhcp_failed 0) = kFailure
   \<and> calls s_dhcp_failed = calls s_client_waiting @ [OnDeviceStateChanged (Some 0) kFailure]
   \<and> (2, Timeout 5000 OnDeviceFailureTimeoutFunc) \<in> set (sources s_dhcp_failed)
   \<and> current_peer s_dhcp_failed = Some 0
   \<and> OnDeviceFailureTimeout s_dhcp_failed = Inr (False, set_state 0 kIdle s_dhcp_failed)
   \<and> State (store (set_state 0 kIdle s_dhcp_failed) 0) = kIdle
   \<and> calls (set_state 0 kIdle s_dhcp_failed) = calls s_dhcp_failed"
  by (simp add: s_dhcp_failed_eq s_client_waiting_eq OnGroupClientDhcpTimeout_def
      OnDeviceFailureTimeout_def Let_def helper_defs scenario_defs kPeerFailureTimeout_def)

subsection \<open>A device was found again\<close>

lemma find_device_keyed:
  "list_all (\<lambda>e. case snd e of None \<Rightarrow> False | Some p \<Rightarrow> Address (h p) = fst e) t
     \<Longrightarrow> find_device h a t = Inr (case map_of t a of None \<Rightarrow> None | Some v \<Rightarrow> v)"
  by (induction h a t rule: find_device.induct) auto

text \<open>Where every entry of the table is a peer under its own address, a found device
  whose address is a key is updated in place: address and name of that peer are
  assigned, and nothing else changes.\<close>

lemma OnP2pDeviceFound_known:
  assumes "peers_keyed s" and "map_of (available_devices s) a = Some v"
  shows "\<exists>p. v = Some p
           \<and> OnP2pDeviceFound a n s
               = Inr (s\<lparr>store := (store s)(p := (store s p)\<lparr>Address := a, Name := n\<rparr>)\<rparr>)"
proof -
  from assms have f: "find_device (store s) a (available_devices s) = Inr v"
    by (simp add: peers_keyed_def find_device_keyed)
  from assms obtain p where p: "v = Some p"
    by (cases v) (auto simp: peers_keyed_def list_all_iff dest!: map_of_SomeD)
  with f show ?thesis
    by (simp add: OnP2pDeviceFound_def SetName_def SetAddress_def)
qed

text \<open>
  Claim C10 asks that \<^verbatim>\<open>P2P-DEVICE-FOUND\<close> for an address that is a key of the table
  update the entry in place, with no call to the delegate. After \<^verbatim>\<open>P2P-DEVICE-LOST\<close> for
  an address that was never found, the address is a key of the table, with a null
  pointer; \<^verbatim>\<open>P2P-DEVICE-FOUND\<close> for that address then dereferences the null pointer in
  the loop over the table.
\<close>

theorem OnP2pDeviceFound_null_entry:
  "run [P2pDeviceLost example_address] s_initial = Inr s_lost_unknown
   \<and> available_devices s_lost_unknown = [(example_address, None)]
   \<and> table_find example_address (available_devices s_lost_unknown)
   \<and> OnP2pDeviceFound example_address ''Aquaris M10'' s_lost_unknown
       = Inl NullPointerDereference"
  by (simp add: s_lost_unknown_def step_def OnP2pDeviceLost_def OnP2pDeviceFound_def
      table_index_def table_find_def Let_def helper_defs scenario_defs)

subsection \<open>The respawn counter\<close>

lemma word_pred_le: "(x::32 word) \<noteq> 0 \<Longrightarrow> x - 1 \<le> x"
  by (meson less_eq_dec_triv_imp nle_le)

lemma respawn_limit_Reset: "respawn_limit (Reset s) = respawn_limit s"
  by (simp add: Reset_def Let_def foldl_calls helper_defs split: option.splits)

lemma respawn_limit_StopSupplicant: "respawn_limit (StopSupplicant s) = respawn_limit s"
  by (simp add: StopSupplicant_def)

lemma respawn_limit_DisconnectSupplicant:
  "respawn_limit (DisconnectSupplicant s) = respawn_limit s"
  by (simp add: DisconnectSupplicant_def Let_def helper_defs)

lemma respawn_limit_HandleSupplicantFailed:
  "respawn_limit (HandleSupplicantFailed s)
     = (if respawn_limit s \<noteq> 0 then respawn_limit s - 1 else respawn_limit s)"
  by (simp add: HandleSupplicantFailed_def Let_def respawn_limit_Reset
      respawn_limit_StopSupplicant respawn_limit_DisconnectSupplicant helper_defs word_gt_0)

lemma HandleSupplicantFailed_le:
  "respawn_limit (HandleSupplicantFailed s) \<le> respawn_limit s"
  by (simp add: respawn_limit_HandleSupplicantFailed word_pred_le)

lemma HandleSupplicantFailed_funpow_le:
  "n \<le> m \<Longrightarrow>
     respawn_limit ((HandleSupplicantFailed ^^ m) s)
       \<le> respawn_limit ((HandleSupplicantFailed ^^ n) s)"
proof (induction m)
  case 0
  then show ?case by simp
next
  case (Suc m)
  show ?case
  proof (cases "n = Suc m")
    case True
    then show ?thesis by simp
  next
    case False
    with Suc.prems have "n \<le> m" by simp
    then have "respawn_limit ((HandleSupplicantFailed ^^ m) s)
                 \<le> respawn_limit ((HandleSupplicantFailed ^^ n) s)"
      by (rule Suc.IH)
    moreover have "respawn_limit ((HandleSupplicantFailed ^^ Suc m) s)
                 \<le> respawn_limit ((HandleSupplicantFailed ^^ m) s)"
      by (simp add: HandleSupplicantFailed_le)
    ultimately show ?thesis by (rule order_trans [rotated])
  qed
qed

lemma Reset_sources:
  "sources (Reset s)
     = (if current_peer s \<noteq> None \<and> dhcp_timeout s > 0
        then filter (\<lambda>e. fst e \<noteq> dhcp_timeout s) (sources s) else sources s)"
  by (simp add: Reset_def Let_def foldl_calls helper_defs split: option.splits)

lemma Reset_ids:
  "source_count (Reset s) = source_count s \<and> respawn_source (Reset s) = respawn_source s"
  by (simp add: Reset_def Let_def foldl_calls helper_defs split: option.splits)

lemma StopSupplicant_frame:
  "sources (StopSupplicant s) = sources s \<and> source_count (StopSupplicant s) = source_count s
   \<and> respawn_source (StopSupplicant s) = respawn_source s
   \<and> current_peer (StopSupplicant s) = current_peer s
   \<and> dhcp_timeout (StopSupplicant s) = dhcp_timeout s"
  by (simp add: StopSupplicant_def)

lemma DisconnectSupplicant_sources:
  "sources (DisconnectSupplicant s)
     = (if 0 \<le> sock s \<and> channel_watch s > 0
        then filter (\<lambda>e. fst e \<noteq> channel_watch s) (sources s) else sources s)"
  by (simp add: DisconnectSupplicant_def Let_def helper_defs)

lemma DisconnectSupplicant_frame:
  "source_count (DisconnectSupplicant s) = source_count s
   \<and> respawn_source (DisconnectSupplicant s) = respawn_source s
   \<and> current_peer (DisconnectSupplicant s) = current_peer s
   \<and> dhcp_timeout (DisconnectSupplicant s) = dhcp_timeout s"
  by (simp add: DisconnectSupplicant_def Let_def helper_defs)

lemmas teardown_simps = Reset_sources Reset_ids StopSupplicant_frame DisconnectSupplicant_sources
  DisconnectSupplicant_frame

lemma HandleSupplicantFailed_schedules:
  "respawn_limit s \<noteq> 0 \<Longrightarrow>
     respawn_source (HandleSupplicantFailed s) = Suc (source_count s)
     \<and> source_count (HandleSupplicantFailed s) = Suc (source_count s)
     \<and> (ids_issued s \<longrightarrow>
          (Suc (source_count s), Timeout 2000 OnSupplicantRespawnFunc)
            \<in> set (sources (HandleSupplicantFailed s)))"
  by (simp add: HandleSupplicantFailed_def Let_def teardown_simps g_timeout_add_def
      g_source_attach_def g_source_remove_def word_gt_0 ids_issued_def
      kSupplicantRespawnTimeout_def)

lemma HandleSupplicantFailed_exhausted:
  "respawn_limit s = 0 \<Longrightarrow>
     respawn_source (HandleSupplicantFailed s) = respawn_source s
     \<and> source_count (HandleSupplicantFailed s) = source_count s
     \<and> set (sources (HandleSupplicantFailed s)) \<subseteq> set (sources s)"
  by (auto simp: HandleSupplicantFailed_def teardown_simps)

lemma respawn_limit_StartSupplicant:
  "respawn_limit (snd (StartSupplicant c sp s)) = respawn_limit s"
  by (simp add: StartSupplicant_def Let_def helper_defs split: option.splits)

lemma respawn_limit_OnSupplicantRespawn:
  "respawn_limit (snd (OnSupplicantRespawn c sp s)) \<le> respawn_limit s"
  using respawn_limit_StartSupplicant [of c sp s]
  by (cases "StartSupplicant c sp s") (auto simp: OnSupplicantRespawn_def word_pred_le word_gt_0)

lemma respawn_limit_ConnectSupplicant:
  "respawn_limit (snd (ConnectSupplicant fd b c w s))
     = (if fst (ConnectSupplicant fd b c w s) then kSupplicantRespawnLimit else respawn_limit s)"
  by (simp add: ConnectSupplicant_def Let_def helper_defs split: prod.splits)

lemma ConnectSupplicant_succeeds_iff:
  "fst (ConnectSupplicant fd b c w s) \<longleftrightarrow> 0 \<le> fd \<and> 0 \<le> b \<and> 0 \<le> c \<and> w"
  by (auto simp: ConnectSupplicant_def Let_def helper_defs split: prod.splits)

lemma respawn_limit_HandleReply: "respawn_limit (HandleReply is_fail s) = respawn_limit s"
  by (simp add: HandleReply_def Let_def emit_def split: list.splits)

lemma respawn_limit_OnConnectSupplicant:
  "respawn_limit (snd (OnConnectSupplicant fd b c w s))
     = (if fst (ConnectSupplicant fd b c w s) then kSupplicantRespawnLimit else respawn_limit s)"
  using respawn_limit_ConnectSupplicant [of fd b c w s]
  by (cases "ConnectSupplicant fd b c w s") (simp add: OnConnectSupplicant_def)

lemma respawn_limit_OnP2pDeviceFound:
  "OnP2pDeviceFound a n s = Inr s' \<Longrightarrow> respawn_limit s' = respawn_limit s"
  by (auto simp: OnP2pDeviceFound_def Let_def helper_defs split: sum.splits option.splits)

lemma respawn_limit_OnP2pDeviceLost: "respawn_limit (OnP2pDeviceLost a s) = respawn_limit s"
  by (simp add: OnP2pDeviceLost_def Let_def helper_defs split: prod.splits)

lemma respawn_limit_OnP2pGroupStarted: "respawn_limit (OnP2pGroupStarted r s) = respawn_limit s"
  by (simp add: OnP2pGroupStarted_def Let_def helper_defs split: option.splits)

lemma respawn_limit_OnP2pGroupRemoved:
  "OnP2pGroupRemoved r s = Inr s' \<Longrightarrow> respawn_limit s' = respawn_limit s"
  by (auto simp: OnP2pGroupRemoved_def split: if_splits option.splits)

lemma respawn_limit_OnAddressAssigned: "respawn_limit (OnAddressAssigned a s) = respawn_limit s"
  by (simp add: OnAddressAssigned_def Let_def helper_defs split: option.splits)

lemma respawn_limit_OnGroupClientDhcpTimeout:
  "respawn_limit (snd (OnGroupClientDhcpTimeout s)) = respawn_limit s"
  by (simp add: OnGroupClientDhcpTimeout_def Let_def helper_defs split: option.splits)

lemma respawn_limit_OnDeviceFailureTimeout:
  "OnDeviceFailureTimeout s = Inr (again, s') \<Longrightarrow> respawn_limit s' = respawn_limit s"
  by (auto simp: OnDeviceFailureTimeout_def helper_defs split: option.splits)

lemma respawn_limit_Connect:
  "Connect d s = Inr (r, s') \<Longrightarrow> respawn_limit s' = respawn_limit s"
  by (auto simp: Connect_def Let_def helper_defs split: option.splits if_splits prod.splits)

lemma respawn_limit_g_source_remove: "respawn_limit (g_source_remove t s) = respawn_limit s"
  by (simp add: g_source_remove_def)

lemma respawn_limit_timeout_fires:
  assumes "timeout_fires tag env s = Inr s'"
  shows "if connects (TimeoutFires tag env) s then respawn_limit s' = kSupplicantRespawnLimit
         else respawn_limit s' \<le> respawn_limit s"
proof (cases "map_of (sources s) tag")
  case None
  with assms show ?thesis by (simp add: timeout_fires_def connects_def)
next
  case (Some src)
  show ?thesis
  proof (cases src)
    case (Timeout interval f)
    show ?thesis
    proof (cases f)
      case OnConnectSupplicantFunc
      with assms Some Timeout show ?thesis
        using respawn_limit_OnConnectSupplicant
          [of "env_fd env" "env_bind env" "env_connect env" "env_watch_ok env" s]
        by (cases "OnConnectSupplicant (env_fd env) (env_bind env) (env_connect env)
                     (env_watch_ok env) s")
           (auto simp: timeout_fires_def connects_def call_source_func_def
              respawn_limit_g_source_remove ConnectSupplicant_succeeds_iff split: if_splits)
    next
      case OnSupplicantRespawnFunc
      with assms Some Timeout show ?thesis
        using respawn_limit_OnSupplicantRespawn [of "env_config_written env" "env_spawned env" s]
        by (cases "OnSupplicantRespawn (env_config_written env) (env_spawned env) s")
           (auto simp: timeout_fires_def connects_def call_source_func_def
              respawn_limit_g_source_remove split: if_splits)
    next
      case OnGroupClientDhcpTimeoutFunc
      with assms Some Timeout show ?thesis
        using respawn_limit_OnGroupClientDhcpTimeout [of s]
        by (cases "OnGroupClientDhcpTimeout s")
           (auto simp: timeout_fires_def connects_def call_source_func_def
              respawn_limit_g_source_remove split: if_splits)
    next
      case OnDeviceFailureTimeoutFunc
      with assms Some Timeout show ?thesis
        by (auto simp: timeout_fires_def connects_def call_source_func_def
              respawn_limit_g_source_remove split: if_splits sum.splits
              dest: respawn_limit_OnDeviceFailureTimeout)
    qed
  next
    case IOWatch
    with assms Some show ?thesis by (simp add: timeout_fires_def connects_def)
  next
    case ChildWatch
    with assms Some show ?thesis by (simp add: timeout_fires_def connects_def)
  qed
qed

lemma respawn_limit_step:
  assumes "step op s = Inr s'"
  shows "if connects op s then respawn_limit s' = kSupplicantRespawnLimit
         else respawn_limit s' \<le> respawn_limit s"
proof (cases op)
  case (TimeoutFires tag env)
  with assms show ?thesis
    using respawn_limit_timeout_fires [of tag env s s'] by (simp add: step_def)
next
  case (P2pDeviceFound a n)
  with assms show ?thesis
    by (auto simp: step_def connects_def dest: respawn_limit_OnP2pDeviceFound)
next
  case (P2pGroupRemoved r)
  with assms show ?thesis
    by (auto simp: step_def connects_def dest: respawn_limit_OnP2pGroupRemoved)
next
  case (CallConnect d)
  with assms show ?thesis
    by (cases "Connect d s") (auto simp: step_def connects_def dest: respawn_limit_Connect)
next
  case (SupplicantExits ok)
  with assms show ?thesis
    by (auto simp: step_def connects_def OnSupplicantWatch_def HandleSupplicantFailed_le)
next
  case SupplicantFailed
  with assms show ?thesis by (auto simp: step_def connects_def HandleSupplicantFailed_le)
next
  case (CallSetup needed loaded env)
  with assms show ?thesis
    by (auto simp: step_def connects_def Setup_def respawn_limit_StartSupplicant emit_def)
qed (use assms in \<open>auto simp: step_def connects_def respawn_limit_OnP2pDeviceLost
      respawn_limit_OnP2pGroupStarted respawn_limit_OnAddressAssigned respawn_limit_StopSupplicant
      OnFirmwareLoaded_def OnFirmwareUnloaded_def respawn_limit_StartSupplicant Scan_def
      DisconnectAll_def Let_def respawn_limit_Reset respawn_limit_HandleReply helper_defs\<close>)

text \<open>
  Claim C5. The respawn counter never grows when a failure of the supplicant is handled,
  so it is non-increasing along any number of successive handlings. \<^verbatim>\<open>HandleSupplicantFailed\<close>
  decrements the counter and arms the respawn timeout of 2000 ms exactly when the
  counter is not zero (the timeout is attached to the main loop afterwards, in a state
  whose source ids were handed out by the main loop); when the counter is zero it stays
  zero and no source is attached. \<^verbatim>\<open>ConnectSupplicant\<close> succeeds exactly when \<^verbatim>\<open>::socket\<close>,
  \<^verbatim>\<open>::bind\<close> and \<^verbatim>\<open>::connect\<close> return no negative value and \<^verbatim>\<open>g_io_add_watch\<close> an id
  other than 0; then it sets the counter to 10, and an attempt that fails leaves the
  counter as it is. Of all the steps of the manager, only the timeout that makes such a
  connect with success changes the counter to a larger value, and it sets it to 10; every
  other step, a connect that fails included, leaves it as it is or smaller.
\<close>

theorem respawn_limit_spec:
  "respawn_limit (HandleSupplicantFailed s) \<le> respawn_limit s
   \<and> (\<forall>n m. n \<le> m \<longrightarrow>
         respawn_limit ((HandleSupplicantFailed ^^ m) s)
           \<le> respawn_limit ((HandleSupplicantFailed ^^ n) s))
   \<and> (respawn_limit s \<noteq> 0 \<longrightarrow>
         respawn_limit (HandleSupplicantFailed s) = respawn_limit s - 1
         \<and> respawn_source (HandleSupplicantFailed s) = Suc (source_count s)
         \<and> (ids_issued s \<longrightarrow>
              (Suc (source_count s), Timeout 2000 OnSupplicantRespawnFunc)
                \<in> set (sources (HandleSupplicantFailed s))))
   \<and> (respawn_limit s = 0 \<longrightarrow>
         respawn_limit (HandleSupplicantFailed s) = 0
         \<and> respawn_source (HandleSupplicantFailed s) = respawn_source s
         \<and> source_count (HandleSupplicantFailed s) = source_count s
         \<and> set (sources (HandleSupplicantFailed s)) \<subseteq> set (sources s))
   \<and> (\<forall>fd b c w.
         (fst (ConnectSupplicant fd b c w s) \<longleftrightarrow> 0 \<le> fd \<and> 0 \<le> b \<and> 0 \<le> c \<and> w)
         \<and> respawn_limit (snd (ConnectSupplicant fd b c w s))
             = (if 0 \<le> fd \<and> 0 \<le> b \<and> 0 \<le> c \<and> w then 10 else respawn_limit s))
   \<and> (\<forall>op s'. step op s = Inr s' \<longrightarrow>
         (if connects op s then respawn_limit s' = 10
          else respawn_limit s' \<le> respawn_limit s))"
proof (intro conjI allI impI)
  show "respawn_limit (HandleSupplicantFailed s) \<le> respawn_limit s"
    by (rule HandleSupplicantFailed_le)
next
  fix n m :: nat assume "n \<le> m"
  then show "respawn_limit ((HandleSupplicantFailed ^^ m) s)
               \<le> respawn_limit ((HandleSupplicantFailed ^^ n) s)"
    by (rule HandleSupplicantFailed_funpow_le)
next
  fix fd b c :: int and w :: bool
  show "fst (ConnectSupplicant fd b c w s) \<longleftrightarrow> 0 \<le> fd \<and> 0 \<le> b \<and> 0 \<le> c \<and> w"
    by (rule ConnectSupplicant_succeeds_iff)
  show "respawn_limit (snd (ConnectSupplicant fd b c w s))
          = (if 0 \<le> fd \<and> 0 \<le> b \<and> 0 \<le> c \<and> w then 10 else respawn_limit s)"
    using respawn_limit_ConnectSupplicant [of fd b c w s]
    by (simp add: ConnectSupplicant_succeeds_iff kSupplicantRespawnLimit_def)
next
  fix op s' assume "step op s = Inr s'"
  then show "if connects op s then respawn_limit s' = 10
             else respawn_limit s' \<le> respawn_limit s"
    using respawn_limit_step [of op s s'] by (simp add: kSupplicantRespawnLimit_def)
qed (simp_all add: respawn_limit_HandleSupplicantFailed HandleSupplicantFailed_schedules
       HandleSupplicantFailed_exhausted)

lemma s_failed_eq:
  "s_failed =
     s_discovered\<lparr>available_devices := [], respawn_limit := 9, respawn_source := 1,
                  sources := [(1, Timeout 2000 OnSupplicantRespawnFunc)], source_count := 1,
                  calls := [OnDeviceFound (Some 0), OnDeviceLost (Some 0)]\<rparr>"
  by (simp add: s_failed_def HandleSupplicantFailed_def Reset_def StopSupplicant_def
      DisconnectSupplicant_def Let_def helper_defs scenario_defs kSupplicantRespawnTimeout_def)

lemma s_respawning_eq:
  "s_respawning =
     s_failed\<lparr>supplicant_pid := 1234,
              sources := [(2, ChildWatch), (3, Timeout 500 OnConnectSupplicantFunc)],
              source_count := 3\<rparr>"
  by (simp add: s_respawning_def s_failed_eq OnSupplicantRespawn_def StartSupplicant_def
      Let_def helper_defs scenario_defs)

lemma s_respawning_reached:
  "run [SupplicantFailed, TimeoutFires 1 example_env] s_discovered = Inr s_respawning"
proof -
  have 1: "step SupplicantFailed s_discovered = Inr s_failed"
    by (simp add: step_def s_failed_def)
  have 2: "step (TimeoutFires 1 example_env) s_failed = Inr s_respawning"
    by (simp add: s_respawning_def step_def timeout_fires_def call_source_func_def
        example_env_def s_failed_eq OnSupplicantRespawn_def StartSupplicant_def Let_def
        helper_defs scenario_defs)
  show ?thesis using 2 by (simp add: 1)
qed

theorem respawn_limit_spec_witness:
  "respawn_limit s_discovered = 10
   \<and> ids_issued s_discovered
   \<and> respawn_limit (HandleSupplicantFailed s_discovered) = 9
   \<and> (1, Timeout 2000 OnSupplicantRespawnFunc)
        \<in> set (sources (HandleSupplicantFailed s_discovered))
   \<and> respawn_limit ((HandleSupplicantFailed ^^ 2) s_discovered)
       \<le> respawn_limit ((HandleSupplicantFailed ^^ 1) s_discovered)
   \<and> respawn_limit s_exhausted = 0
   \<and> respawn_limit (HandleSupplicantFailed s_exhausted) = 0
   \<and> set (sources (HandleSupplicantFailed s_exhausted)) \<subseteq> set (sources s_exhausted)
   \<and> respawn_limit s_respawning = 9
   \<and> connects (TimeoutFires 3 example_env) s_respawning
   \<and> (\<exists>s'. step (TimeoutFires 3 example_env) s_respawning = Inr s' \<and> respawn_limit s' = 10)
   \<and> fst (ConnectSupplicant 3 0 0 True s_respawning)
   \<and> respawn_limit (snd (ConnectSupplicant 3 0 0 True s_respawning)) = 10
   \<and> \<not> connects (TimeoutFires 3 (example_env\<lparr>env_fd := - 1\<rparr>)) s_respawning
   \<and> (\<exists>s'. step (TimeoutFires 3 (example_env\<lparr>env_fd := - 1\<rparr>)) s_respawning = Inr s'
         \<and> respawn_limit s' \<le> 9)
   \<and> \<not> fst (ConnectSupplicant (- 1) 0 0 True s_respawning)
   \<and> respawn_limit (snd (ConnectSupplicant (- 1) 0 0 True s_respawning)) = 9
   \<and> \<not> fst (ConnectSupplicant 3 (- 1) 0 True s_respawning)
   \<and> respawn_limit (snd (ConnectSupplicant 3 (- 1) 0 True s_respawning)) = 9
   \<and> \<not> fst (ConnectSupplicant 3 0 (- 1) True s_respawning)
   \<and> respawn_limit (snd (ConnectSupplicant 3 0 (- 1) True s_respawning)) = 9
   \<and> \<not> fst (ConnectSupplicant 3 0 0 False s_respawning)
   \<and> respawn_limit (snd (ConnectSupplicant 3 0 0 False s_respawning)) = 9
   \<and> \<not> connects (P2pDeviceLost example_address) s_respawning
   \<and> respawn_limit (OnP2pDeviceLost example_address s_respawning)
       \<le> respawn_limit s_respawning"
proof -
  let ?bad = "example_env\<lparr>env_fd := - 1\<rparr>"
  have a: "respawn_limit s_discovered = 10" "ids_issued s_discovered"
    "source_count s_discovered = 0"
    by (simp_all add: ids_issued_def scenario_defs)
  have b: "respawn_limit s_exhausted = 0" "sources s_exhausted = []"
    by (simp_all add: s_exhausted_def scenario_defs)
  have c: "respawn_limit s_respawning = 9"
    "connects (TimeoutFires 3 example_env) s_respawning"
    "\<not> connects (TimeoutFires 3 ?bad) s_respawning"
    "\<not> connects (P2pDeviceLost example_address) s_respawning"
    by (simp_all add: s_respawning_eq s_failed_eq connects_def example_env_def scenario_defs)
  have d: "\<exists>s'. timeout_fires 3 example_env s_respawning = Inr s'"
    "\<exists>s'. timeout_fires 3 ?bad s_respawning = Inr s'"
    by (simp_all add: s_respawning_eq s_failed_eq timeout_fires_def call_source_func_def
        split: prod.splits)
  have e: "step (TimeoutFires 3 env) s_respawning = timeout_fires 3 env s_respawning"
    "step (P2pDeviceLost example_address) s_respawning
       = Inr (OnP2pDeviceLost example_address s_respawning)" for env
    by (simp_all add: step_def)
  have f: "(1::nat) \<le> 2" by simp
  note A = respawn_limit_spec [of s_discovered]
  note B = respawn_limit_spec [of s_exhausted]
  note C = respawn_limit_spec [of s_respawning]
  from A a have 1: "respawn_limit (HandleSupplicantFailed s_discovered) = 9"
    "(1, Timeout 2000 OnSupplicantRespawnFunc)
       \<in> set (sources (HandleSupplicantFailed s_discovered))"
    by simp_all
  from A f have 2: "respawn_limit ((HandleSupplicantFailed ^^ 2) s_discovered)
       \<le> respawn_limit ((HandleSupplicantFailed ^^ 1) s_discovered)"
    by blast
  from B b have 3: "respawn_limit (HandleSupplicantFailed s_exhausted) = 0"
    "set (sources (HandleSupplicantFailed s_exhausted)) \<subseteq> set (sources s_exhausted)"
    by simp_all
  from C have step_C: "step op s_respawning = Inr s' \<Longrightarrow>
      (if connects op s_respawning then respawn_limit s' = 10
       else respawn_limit s' \<le> respawn_limit s_respawning)" for op s'
    by blast
  from C have conn_C:
    "(fst (ConnectSupplicant fd b c w s_respawning) \<longleftrightarrow> 0 \<le> fd \<and> 0 \<le> b \<and> 0 \<le> c \<and> w)
     \<and> respawn_limit (snd (ConnectSupplicant fd b c w s_respawning))
         = (if 0 \<le> fd \<and> 0 \<le> b \<and> 0 \<le> c \<and> w then 10 else respawn_limit s_respawning)"
    for fd b c w
    by blast
  from d obtain s' where s': "timeout_fires 3 example_env s_respawning = Inr s'" by blast
  from step_C [of "TimeoutFires 3 example_env" s'] c e s'
  have 4: "\<exists>s'. step (TimeoutFires 3 example_env) s_respawning = Inr s' \<and> respawn_limit s' = 10"
    by simp
  from d obtain t' where t': "timeout_fires 3 ?bad s_respawning = Inr t'" by blast
  from step_C [of "TimeoutFires 3 ?bad" t'] c e t'
  have 5: "\<exists>s'. step (TimeoutFires 3 ?bad) s_respawning = Inr s' \<and> respawn_limit s' \<le> 9"
    by simp
  from step_C [of "P2pDeviceLost example_address"] c e
  have 6: "respawn_limit (OnP2pDeviceLost example_address s_respawning)
             \<le> respawn_limit s_respawning"
    by simp
  from conn_C [of 3 0 0 True] conn_C [of "- 1" 0 0 True] conn_C [of 3 "- 1" 0 True]
    conn_C [of 3 0 "- 1" True] conn_C [of 3 0 0 False] c(1)
  have 7: "fst (ConnectSupplicant 3 0 0 True s_respawning)"
    "respawn_limit (snd (ConnectSupplicant 3 0 0 True s_respawning)) = 10"
    "\<not> fst (ConnectSupplicant (- 1) 0 0 True s_respawning)"
    "respawn_limit (snd (ConnectSupplicant (- 1) 0 0 True s_respawning)) = 9"
    "\<not> fst (ConnectSupplicant 3 (- 1) 0 True s_respawning)"
    "respawn_limit (snd (ConnectSupplicant 3 (- 1) 0 True s_respawning)) = 9"
    "\<not> fst (ConnectSupplicant 3 0 (- 1) True s_respawning)"
    "respawn_limit (snd (ConnectSupplicant 3 0 (- 1) True s_respawning)) = 9"
    "\<not> fst (ConnectSupplicant 3 0 0 False s_respawning)"
    "respawn_limit (snd (ConnectSupplicant 3 0 0 False s_respawning)) = 9"
    by simp_all
  show ?thesis using a b c 1 2 3 4 5 6 7 by simp
qed

subsection \<open>The source ids the manager holds\<close>

text \<open>The ids in the fields of the manager and in the main loop were handed out by the
  main loop: this holds after the constructor and after every step.\<close>

lemmas ids_simps = ids_issued_def list_all_iff Let_def helper_defs

lemma ids_issued_constructor: "ids_issued (constructor d a b)"
  by (simp add: ids_issued_def constructor_def)

lemma ids_issued_Reset: "ids_issued s \<Longrightarrow> ids_issued (Reset s)"
  by (auto simp: ids_simps Reset_def foldl_calls split: option.splits)

lemma ids_issued_StopSupplicant: "ids_issued s \<Longrightarrow> ids_issued (StopSupplicant s)"
  by (auto simp: ids_simps StopSupplicant_def)

lemma ids_issued_DisconnectSupplicant: "ids_issued s \<Longrightarrow> ids_issued (DisconnectSupplicant s)"
  by (auto simp: ids_simps DisconnectSupplicant_def)

lemma ids_issued_HandleSupplicantFailed: "ids_issued s \<Longrightarrow> ids_issued (HandleSupplicantFailed s)"
  unfolding HandleSupplicantFailed_def Let_def
  by (intro ids_issued_Reset ids_issued_StopSupplicant ids_issued_DisconnectSupplicant)
     (auto simp: ids_simps)

lemma ids_issued_StartSupplicant: "ids_issued s \<Longrightarrow> ids_issued (snd (StartSupplicant c sp s))"
  by (auto simp: ids_simps StartSupplicant_def split: option.splits)

lemma ids_issued_OnSupplicantRespawn:
  "ids_issued s \<Longrightarrow> ids_issued (snd (OnSupplicantRespawn c sp s))"
  using ids_issued_StartSupplicant [of s c sp]
  by (cases "StartSupplicant c sp s") (auto simp: OnSupplicantRespawn_def ids_issued_def)

lemma ids_issued_ConnectSupplicant:
  "ids_issued s \<Longrightarrow> ids_issued (snd (ConnectSupplicant fd b c w s))"
  by (auto simp: ids_simps ConnectSupplicant_def SetWfdSubElements_def)

lemma ids_issued_OnConnectSupplicant:
  "ids_issued s \<Longrightarrow> ids_issued (snd (OnConnectSupplicant fd b c w s))"
  using ids_issued_ConnectSupplicant [of s fd b c w]
  by (cases "ConnectSupplicant fd b c w s") (simp add: OnConnectSupplicant_def)

lemma ids_issued_OnP2pDeviceFound:
  "ids_issued s \<Longrightarrow> OnP2pDeviceFound a n s = Inr s' \<Longrightarrow> ids_issued s'"
  by (fastforce simp: ids_simps OnP2pDeviceFound_def split: sum.splits option.splits if_splits)

lemma ids_issued_OnP2pDeviceLost: "ids_issued s \<Longrightarrow> ids_issued (OnP2pDeviceLost a s)"
  by (auto simp: ids_simps OnP2pDeviceLost_def split: prod.splits)

lemma ids_issued_OnP2pGroupStarted: "ids_issued s \<Longrightarrow> ids_issued (OnP2pGroupStarted r s)"
  by (auto simp: ids_simps OnP2pGroupStarted_def split: option.splits)

lemma ids_issued_OnP2pGroupRemoved:
  "ids_issued s \<Longrightarrow> OnP2pGroupRemoved r s = Inr s' \<Longrightarrow> ids_issued s'"
  by (auto simp: OnP2pGroupRemoved_def split: if_splits)

lemma ids_issued_OnAddressAssigned: "ids_issued s \<Longrightarrow> ids_issued (OnAddressAssigned a s)"
  by (auto simp: ids_simps OnAddressAssigned_def split: option.splits)

lemma ids_issued_OnGroupClientDhcpTimeout:
  "ids_issued s \<Longrightarrow> ids_issued (snd (OnGroupClientDhcpTimeout s))"
  by (auto simp: ids_simps OnGroupClientDhcpTimeout_def split: option.splits)

lemma ids_issued_OnDeviceFailureTimeout:
  "ids_issued s \<Longrightarrow> OnDeviceFailureTimeout s = Inr (again, s') \<Longrightarrow> ids_issued s'"
  by (fastforce simp: ids_simps OnDeviceFailureTimeout_def split: option.splits)

lemma ids_issued_Connect:
  "ids_issued s \<Longrightarrow> Connect d s = Inr (r, s') \<Longrightarrow> ids_issued s'"
  by (fastforce simp: ids_simps Connect_def split: option.splits if_splits prod.splits)

lemma ids_issued_g_source_remove: "ids_issued s \<Longrightarrow> ids_issued (g_source_remove t s)"
  by (auto simp: ids_simps)

lemma ids_issued_emit: "ids_issued (emit c s) = ids_issued s"
  by (simp add: ids_issued_def emit_def)

lemma ids_issued_EnqueueCommand: "ids_issued (snd (EnqueueCommand m h c s)) = ids_issued s"
  by (simp add: ids_issued_def EnqueueCommand_def Let_def emit_def)

lemma ids_issued_HandleReply: "ids_issued (HandleReply is_fail s) = ids_issued s"
  by (simp add: ids_issued_def HandleReply_def Let_def emit_def split: list.splits)

lemma ids_issued_call_source_func:
  "ids_issued s \<Longrightarrow> call_source_func f env s = Inr (again, s') \<Longrightarrow> ids_issued s'"
  using ids_issued_OnConnectSupplicant
      [of s "env_fd env" "env_bind env" "env_connect env" "env_watch_ok env"]
    ids_issued_OnSupplicantRespawn [of s "env_config_written env" "env_spawned env"]
    ids_issued_OnGroupClientDhcpTimeout [of s]
  by (cases f) (auto simp: call_source_func_def dest: ids_issued_OnDeviceFailureTimeout)

lemma ids_issued_timeout_fires:
  "ids_issued s \<Longrightarrow> timeout_fires tag env s = Inr s' \<Longrightarrow> ids_issued s'"
  by (auto simp: timeout_fires_def
      split: option.splits GSource.splits sum.splits if_splits prod.splits
      dest: ids_issued_call_source_func intro: ids_issued_g_source_remove)

lemma ids_issued_step:
  assumes "ids_issued s" and "step op s = Inr s'"
  shows "ids_issued s'"
proof (cases op)
  case (P2pDeviceFound a n)
  with assms show ?thesis by (auto simp: step_def dest: ids_issued_OnP2pDeviceFound)
next
  case (P2pDeviceLost a)
  with assms show ?thesis by (auto simp: step_def intro: ids_issued_OnP2pDeviceLost)
next
  case (P2pGroupStarted r)
  with assms show ?thesis by (auto simp: step_def intro: ids_issued_OnP2pGroupStarted)
next
  case (P2pGroupRemoved r)
  with assms show ?thesis by (auto simp: step_def dest: ids_issued_OnP2pGroupRemoved)
next
  case (AddressAssigned a)
  with assms show ?thesis by (auto simp: step_def intro: ids_issued_OnAddressAssigned)
next
  case (TimeoutFires tag env)
  with assms show ?thesis by (auto simp: step_def dest: ids_issued_timeout_fires)
next
  case (SupplicantExits ok)
  with assms show ?thesis
    by (auto simp: step_def OnSupplicantWatch_def intro: ids_issued_HandleSupplicantFailed)
next
  case Hangup
  with assms show ?thesis by (auto simp: step_def intro: ids_issued_StopSupplicant)
next
  case SupplicantFailed
  with assms show ?thesis by (auto simp: step_def intro: ids_issued_HandleSupplicantFailed)
next
  case (CallSetup needed loaded env)
  with assms show ?thesis
    by (auto simp: step_def Setup_def ids_issued_emit intro: ids_issued_StartSupplicant)
next
  case (FirmwareLoaded env)
  with assms show ?thesis
    by (auto simp: step_def OnFirmwareLoaded_def intro: ids_issued_StartSupplicant)
next
  case FirmwareUnloaded
  with assms show ?thesis
    by (auto simp: step_def OnFirmwareUnloaded_def ids_issued_emit
        intro: ids_issued_StopSupplicant)
next
  case (CallScan t)
  with assms show ?thesis
    by (auto simp: step_def Scan_def RequestAsync_def ids_issued_EnqueueCommand)
next
  case (CallConnect d)
  with assms show ?thesis
    by (cases "Connect d s") (auto simp: step_def dest: ids_issued_Connect)
next
  case CallDisconnectAll
  with assms show ?thesis
    by (auto simp: step_def DisconnectAll_def Let_def RequestAsync_def ids_issued_EnqueueCommand)
next
  case CallReset
  with assms show ?thesis by (auto simp: step_def intro: ids_issued_Reset)
next
  case (ReplyArrives is_fail)
  with assms show ?thesis by (auto simp: step_def ids_issued_HandleReply)
qed

lemma ids_issued_run:
  "ids_issued s \<Longrightarrow> run ops s = Inr s' \<Longrightarrow> ids_issued s'"
  by (induction ops arbitrary: s) (auto split: sum.splits dest: ids_issued_step)

end
